theory Spec2Isabelle
  imports Complex_Main "HOL-Library.AList"
begin

section \<open>Request coordinator: \<open>RateLimitManager\<close>\<close>

text \<open>
  Source: the class \<open>RateLimitManager\<close> (src/src/agents/compactPrompt.ts, second document).
  Times are integer milliseconds as returned by \<open>Date.now()\<close>. The clock is idealised:
  it is read on entry of a call and advances by exactly the duration of every sleep the
  call performs; log output is not modelled.
\<close>

record RateLimitManager =
  maxRequestsPerMinute :: int
  minRequestDelay :: int
  circuitBreakerThreshold :: int
  circuitBreakerTimeout :: int
  requestTimestamps :: "int list"
  lastRequestTime :: int
  consecutiveFailures :: int
  circuitBreakerOpenUntil :: int
  backoffUntil :: int
  ipBannedUntil :: int
  requestStats :: "(string \<times> int) list"
  lastStatsLogTime :: int

definition REQUEST_WINDOW :: int where
  "REQUEST_WINDOW = 60000"

definition BACKOFF_429_DURATION :: int where
  "BACKOFF_429_DURATION = 60000"

definition STATS_LOG_INTERVAL :: int where
  "STATS_LOG_INTERVAL = 300000"

text \<open>The constructor: every counter and deadline starts at 0, the ring is empty.\<close>

definition newRateLimitManager :: "int \<Rightarrow> int \<Rightarrow> int \<Rightarrow> int \<Rightarrow> RateLimitManager" where
  "newRateLimitManager maxPerMinute minDelay threshold timeout =
     \<lparr>maxRequestsPerMinute = maxPerMinute, minRequestDelay = minDelay,
      circuitBreakerThreshold = threshold, circuitBreakerTimeout = timeout,
      requestTimestamps = [], lastRequestTime = 0, consecutiveFailures = 0,
      circuitBreakerOpenUntil = 0, backoffUntil = 0, ipBannedUntil = 0,
      requestStats = [], lastStatsLogTime = 0\<rparr>"

text \<open>\<open>Math.ceil(ms / 1000)\<close> on an integer number of milliseconds.\<close>

definition ceilSeconds :: "int \<Rightarrow> int" where
  "ceilSeconds ms = - ((- ms) div 1000)"

text \<open>
  The reason string of a block embeds the kind of the penalty window and the remaining
  whole seconds; the datatype keeps exactly these two pieces of the message.
\<close>

datatype block_reason = IpBanned int | Backoff429 int | CircuitBreakerOpen int

datatype block_check = Block block_reason int | NoBlock

definition shouldBlockRequest :: "int \<Rightarrow> RateLimitManager \<Rightarrow> block_check \<times> RateLimitManager" where
  "shouldBlockRequest now s =
     (if ipBannedUntil s > now then
        (Block (IpBanned (ceilSeconds (ipBannedUntil s - now))) (ipBannedUntil s - now), s)
      else
        let s1 = (if ipBannedUntil s > 0 \<and> ipBannedUntil s \<le> now
                  then s\<lparr>ipBannedUntil := 0, consecutiveFailures := 0,
                         circuitBreakerOpenUntil := 0, backoffUntil := 0\<rparr>
                  else s)
        in if backoffUntil s1 > now then
             (Block (Backoff429 (ceilSeconds (backoffUntil s1 - now))) (backoffUntil s1 - now), s1)
           else if circuitBreakerOpenUntil s1 > now then
             (Block (CircuitBreakerOpen (ceilSeconds (circuitBreakerOpenUntil s1 - now)))
                (circuitBreakerOpenUntil s1 - now), s1)
           else
             (NoBlock,
              if circuitBreakerOpenUntil s1 > 0 \<and> circuitBreakerOpenUntil s1 \<le> now
              then s1\<lparr>consecutiveFailures := 0, circuitBreakerOpenUntil := 0\<rparr>
              else s1))"

definition getStat :: "(string \<times> int) list \<Rightarrow> string \<Rightarrow> int" where
  "getStat stats endpoint = (case map_of stats endpoint of None \<Rightarrow> 0 | Some c \<Rightarrow> c)"

definition recordRequestStat :: "string \<Rightarrow> int \<Rightarrow> RateLimitManager \<Rightarrow> RateLimitManager" where
  "recordRequestStat endpoint now s =
     (let s1 = s\<lparr>requestStats :=
                  AList.update endpoint (getStat (requestStats s) endpoint + 1) (requestStats s)\<rparr>
      in if now - lastStatsLogTime s1 > STATS_LOG_INTERVAL
         then s1\<lparr>lastStatsLogTime := now, requestStats := []\<rparr>
         else s1)"

text \<open>
  The outcome of an admission call: the thrown error, or the list of sleeps
  (\<open>setTimeout\<close> durations, in order) the call went through before it recorded the request.
\<close>

datatype admission = Rejected block_reason | Admitted "int list"

definition rateLimitWait :: "int \<Rightarrow> int \<Rightarrow> int list \<Rightarrow> int list" where
  "rateLimitWait now maxPerMinute ts =
     (if int (length ts) \<ge> maxPerMinute then
        (case ts of
           [] \<Rightarrow> []
         | oldestTimestamp # _ \<Rightarrow>
             (let waitTime = REQUEST_WINDOW - (now - oldestTimestamp) + 100
              in if waitTime > 0 then [waitTime] else []))
      else [])"

definition minDelayWait :: "int \<Rightarrow> int \<Rightarrow> int \<Rightarrow> int list" where
  "minDelayWait now lastTime minDelay =
     (let timeSinceLastRequest = now - lastTime
      in if timeSinceLastRequest < minDelay then [minDelay - timeSinceLastRequest] else [])"

definition waitForRateLimit ::
  "string \<Rightarrow> int \<Rightarrow> RateLimitManager \<Rightarrow> admission \<times> RateLimitManager \<times> int" where
  "waitForRateLimit endpoint now s0 =
     (case shouldBlockRequest now s0 of
        (Block why _, s) \<Rightarrow> (Rejected why, s, now)
      | (NoBlock, s) \<Rightarrow>
          (let ts = filter (\<lambda>timestamp. now - timestamp < REQUEST_WINDOW) (requestTimestamps s);
               s1 = s\<lparr>requestTimestamps := ts\<rparr>;
               sleeps = rateLimitWait now (maxRequestsPerMinute s1) ts
                        @ minDelayWait now (lastRequestTime s1) (minRequestDelay s1);
               clock = now + sum_list sleeps;
               s2 = s1\<lparr>requestTimestamps := ts @ [clock], lastRequestTime := clock\<rparr>
           in (Admitted sleeps, recordRequestStat endpoint clock s2, clock)))"

definition handle429Warning :: "int \<Rightarrow> RateLimitManager \<Rightarrow> RateLimitManager" where
  "handle429Warning now s = s\<lparr>backoffUntil := now + BACKOFF_429_DURATION\<rparr>"

definition handle418Ban :: "int option \<Rightarrow> int \<Rightarrow> RateLimitManager \<Rightarrow> RateLimitManager" where
  "handle418Ban banDurationSeconds now s =
     (let duration = (case banDurationSeconds of
                        None \<Rightarrow> 300000
                      | Some d \<Rightarrow> if d \<noteq> 0 then d * 1000 else 300000)
      in s\<lparr>ipBannedUntil := now + duration,
            circuitBreakerOpenUntil := now + duration,
            consecutiveFailures := circuitBreakerThreshold s\<rparr>)"

definition recordSuccess :: "RateLimitManager \<Rightarrow> RateLimitManager" where
  "recordSuccess s = (if consecutiveFailures s > 0 then s\<lparr>consecutiveFailures := 0\<rparr> else s)"

definition recordFailure :: "int \<Rightarrow> RateLimitManager \<Rightarrow> RateLimitManager" where
  "recordFailure now s =
     (let s1 = s\<lparr>consecutiveFailures := consecutiveFailures s + 1\<rparr>
      in if consecutiveFailures s1 \<ge> circuitBreakerThreshold s1
         then s1\<lparr>circuitBreakerOpenUntil := now + circuitBreakerTimeout s1\<rparr>
         else s1)"


section \<open>Gate exchange client\<close>

text \<open>
  Source: the class \<open>GateExchangeClient\<close> (src/src/agents/compactPrompt.ts, third document).
  JavaScript numbers are idealised as reals: the rounding of IEEE doubles and the values
  \<open>NaN\<close> and \<open>Infinity\<close> are not modelled, so every parsed number is a proper number.
  A value that is \<open>undefined\<close> in the source is \<open>None\<close>.
\<close>

text \<open>\<open>Math.round\<close>: the nearest integer, a tie going up.\<close>

definition js_round :: "real \<Rightarrow> int" where
  "js_round x = \<lfloor>x + 1 / 2\<rfloor>"

subsection \<open>\<open>placeOrder\<close>\<close>

record ContractInfo =
  orderSizeMin :: real
  orderSizeMax :: real
  orderPriceRound :: real

record OrderParams =
  op_contract :: string
  op_size :: real
  op_price :: "real option"
  op_tif :: "string option"
  op_reduceOnly :: bool

text \<open>
  The order handed to \<open>createFuturesOrder\<close>. The price is the number that \<open>formatPrice\<close>
  renders (0 stands for the string "0"); the fields \<open>autoSize\<close>, \<open>stopLoss\<close> and
  \<open>takeProfit\<close>, copied through from the parameters, are left out.
\<close>

record FuturesOrder =
  fo_contract :: string
  fo_size :: real
  fo_price :: real
  fo_tif :: string
  fo_isReduceOnly :: bool

definition API_MAX_SIZE :: real where
  "API_MAX_SIZE = 10000000"

text \<open>Lines 767 to 790: the size after the minimum and the maximum check.\<close>

definition adjustSize :: "ContractInfo \<Rightarrow> real \<Rightarrow> real" where
  "adjustSize contractInfo sz =
     (let absSize = \<bar>sz\<bar>;
          adjustedSize =
            (if orderSizeMin contractInfo \<noteq> 0 \<and> absSize < orderSizeMin contractInfo
             then (if sz > 0 then orderSizeMin contractInfo else - orderSizeMin contractInfo)
             else sz);
          maxSize =
            (if orderSizeMax contractInfo \<noteq> 0
             then min (orderSizeMax contractInfo) API_MAX_SIZE
             else API_MAX_SIZE)
      in if absSize > maxSize then (if sz > 0 then maxSize else - maxSize) else adjustedSize)"

text \<open>Lines 792 to 813: a limit price further than 1.5% from the mark price is pulled back.\<close>

definition adjustPrice :: "real \<Rightarrow> real \<Rightarrow> real \<Rightarrow> real" where
  "adjustPrice markPrice sz price =
     (if markPrice > 0 then
        (let priceDeviation = \<bar>price - markPrice\<bar> / markPrice;
             maxDeviation = 0.015
         in if priceDeviation > maxDeviation
            then (if sz > 0 then markPrice * (1 + maxDeviation) else markPrice * (1 - maxDeviation))
            else price)
      else price)"

definition formatPrice :: "real option \<Rightarrow> real" where
  "formatPrice price =
     (case price of
        None \<Rightarrow> 0
      | Some p \<Rightarrow> if p = 0 then 0 else real_of_int (js_round (p * 100000000)) / 100000000)"

datatype api_error = ApiError (err_label: "string option") (err_message: string)

datatype order_error = InsufficientAvailable string | OrderFailed string

text \<open>
  What the exchange answers during one call of \<open>placeOrder\<close>: the contract metadata, the
  mark price of the ticker (asked for only when a positive limit price is given) and the
  response to the order.
\<close>

record place_order_api =
  po_getContractInfo :: "api_error + ContractInfo"
  po_markPrice :: "api_error + real"
  po_createFuturesOrder :: "FuturesOrder \<Rightarrow> api_error + string"

definition orderError :: "api_error \<Rightarrow> order_error" where
  "orderError e =
     (if err_label e = Some ''INSUFFICIENT_AVAILABLE''
      then InsufficientAvailable (err_message e)
      else OrderFailed (err_message e))"

definition buildOrder :: "place_order_api \<Rightarrow> OrderParams \<Rightarrow> api_error + FuturesOrder" where
  "buildOrder api params =
     (case po_getContractInfo api of
        Inl e \<Rightarrow> Inl e
      | Inr contractInfo \<Rightarrow>
          (let adjustedSize = adjustSize contractInfo (op_size params);
               finish = (\<lambda>adjustedPrice.
                 Inr \<lparr>fo_contract = op_contract params, fo_size = adjustedSize,
                      fo_price = formatPrice adjustedPrice,
                      fo_tif = (if formatPrice adjustedPrice \<noteq> 0
                                then (case op_tif params of
                                        None \<Rightarrow> ''gtc''
                                      | Some t \<Rightarrow> if t = [] then ''gtc'' else t)
                                else ''ioc''),
                      fo_isReduceOnly = op_reduceOnly params\<rparr>)
           in case op_price params of
                None \<Rightarrow> finish None
              | Some p \<Rightarrow>
                  if p > 0 then
                    (case po_markPrice api of
                       Inl e \<Rightarrow> Inl e
                     | Inr markPrice \<Rightarrow> finish (Some (adjustPrice markPrice (op_size params) p)))
                  else finish (Some p)))"

definition placeOrder ::
  "place_order_api \<Rightarrow> OrderParams \<Rightarrow> order_error + (FuturesOrder \<times> string)" where
  "placeOrder api params =
     (case buildOrder api params of
        Inl e \<Rightarrow> Inl (orderError e)
      | Inr order \<Rightarrow>
          (case po_createFuturesOrder api order of
             Inl e \<Rightarrow> Inl (orderError e)
           | Inr orderId \<Rightarrow> Inr (order, orderId)))"


subsection \<open>\<open>setPositionStopLoss\<close>\<close>

datatype position_side = Long | Short

record PositionInfo =
  pi_contract :: string
  pi_size :: real

text \<open>
  A price-triggered order as \<open>createPriceTriggeredOrder\<close> receives it: the initial order is
  always a market order (price "0", tif "ioc") for \<open>closeSize\<close> contracts; the trigger
  carries the formatted price and the rule (1 for \<open>>=\<close>, 2 for \<open><=\<close>).
\<close>

record TriggerOrder =
  to_contract :: string
  to_size :: int
  to_price :: string
  to_rule :: nat

datatype api_call = CancelPriceTriggeredOrderList string | CreatePriceTriggeredOrder TriggerOrder

datatype stop_error = ExchangeError string | NoCurrentPrice

datatype stop_message =
    NoPositionFound
  | SetFailed string
  | StopLossFailed stop_error
  | StopLossSetTakeProfitFailed stop_error
  | TakeProfitFailed stop_error
  | StopsSet "real option" "real option"

record StopLossResult =
  success :: bool
  stopLossOrderId :: "string option"
  takeProfitOrderId :: "string option"
  message :: stop_message

text \<open>
  What the exchange answers during one call of \<open>setPositionStopLoss\<close>: the position list,
  the mark price read before each of the two trigger orders, the tick size of the contract
  (\<open>None\<close> when the contract metadata cannot be fetched) and the response to each trigger
  order (an error message, or the identifier of the created order, which may be missing).
  \<open>Number.prototype.toFixed\<close> renders a number with a given count of decimals; it is a
  parameter, as is the count of decimals read off the printed tick size.
\<close>

record stop_loss_api =
  sl_getPositions :: "string + PositionInfo list"
  sl_markPriceForStopLoss :: "string + real"
  sl_markPriceForTakeProfit :: "string + real"
  sl_tickSize :: "real option"
  sl_tickDecimals :: nat
  sl_toFixed :: "nat \<Rightarrow> real \<Rightarrow> string"
  sl_createStopLoss :: "TriggerOrder \<Rightarrow> string + string option"
  sl_createTakeProfit :: "TriggerOrder \<Rightarrow> string + string option"

definition formatPriceByTickSize :: "stop_loss_api \<Rightarrow> real \<Rightarrow> string" where
  "formatPriceByTickSize api price =
     (case sl_tickSize api of
        None \<Rightarrow> sl_toFixed api 2 price
      | Some tickSize \<Rightarrow>
          sl_toFixed api (sl_tickDecimals api) (real_of_int (js_round (price / tickSize)) * tickSize))"

text \<open>Lines 1298 to 1323: the stop-loss price against the current (mark) price.\<close>

definition adjustStopLoss :: "position_side \<Rightarrow> real \<Rightarrow> real \<Rightarrow> real" where
  "adjustStopLoss side currentPrice stopLoss =
     (let isInvalidStopLoss = (side = Long \<and> stopLoss \<ge> currentPrice) \<or>
                              (side = Short \<and> stopLoss \<le> currentPrice)
      in if isInvalidStopLoss then
           (let minDistance = 0.005
            in if side = Long then currentPrice * (1 - minDistance)
               else currentPrice * (1 + minDistance))
         else
           (let priceDeviation = \<bar>stopLoss - currentPrice\<bar> / currentPrice;
                minSafeDistance = 0.003
            in if priceDeviation < minSafeDistance
               then (if side = Long then currentPrice * (1 - minSafeDistance)
                     else currentPrice * (1 + minSafeDistance))
               else stopLoss))"

text \<open>Lines 1390 to 1415: the take-profit price against the current (mark) price.\<close>

definition adjustTakeProfit :: "position_side \<Rightarrow> real \<Rightarrow> real \<Rightarrow> real" where
  "adjustTakeProfit side currentPrice takeProfit =
     (let isInvalidTakeProfit = (side = Long \<and> takeProfit \<le> currentPrice) \<or>
                                (side = Short \<and> takeProfit \<ge> currentPrice)
      in if isInvalidTakeProfit then
           (let minDistance = 0.005
            in if side = Long then currentPrice * (1 + minDistance)
               else currentPrice * (1 - minDistance))
         else
           (let priceDeviation = \<bar>takeProfit - currentPrice\<bar> / currentPrice;
                minSafeDistance = 0.003
            in if priceDeviation < minSafeDistance
               then (if side = Long then currentPrice * (1 + minSafeDistance)
                     else currentPrice * (1 - minSafeDistance))
               else takeProfit))"

text \<open>
  The body of each of the two \<open>try\<close> blocks up to the API call: the error caught, or the
  adjusted price together with the trigger order built from it.
\<close>

definition stopLossOrder ::
  "stop_loss_api \<Rightarrow> string \<Rightarrow> position_side \<Rightarrow> int \<Rightarrow> real \<Rightarrow> stop_error + (real \<times> TriggerOrder)" where
  "stopLossOrder api contract side closeSize stopLoss =
     (case sl_markPriceForStopLoss api of
        Inl e \<Rightarrow> Inl (ExchangeError e)
      | Inr currentPrice \<Rightarrow>
          if currentPrice \<le> 0 then Inl NoCurrentPrice
          else
            (let adjusted = adjustStopLoss side currentPrice stopLoss
             in Inr (adjusted,
                  \<lparr>to_contract = contract, to_size = closeSize,
                   to_price = formatPriceByTickSize api adjusted,
                   to_rule = (if side = Long then 2 else 1)\<rparr>)))"

definition takeProfitOrder ::
  "stop_loss_api \<Rightarrow> string \<Rightarrow> position_side \<Rightarrow> int \<Rightarrow> real \<Rightarrow> stop_error + (real \<times> TriggerOrder)" where
  "takeProfitOrder api contract side closeSize takeProfit =
     (case sl_markPriceForTakeProfit api of
        Inl e \<Rightarrow> Inl (ExchangeError e)
      | Inr currentPrice \<Rightarrow>
          if currentPrice \<le> 0 then Inl NoCurrentPrice
          else
            (let adjusted = adjustTakeProfit side currentPrice takeProfit
             in Inr (adjusted,
                  \<lparr>to_contract = contract, to_size = closeSize,
                   to_price = formatPriceByTickSize api adjusted,
                   to_rule = (if side = Long then 1 else 2)\<rparr>)))"

text \<open>JavaScript truthiness of an optional string and of an optional number.\<close>

definition truthyString :: "string option \<Rightarrow> bool" where
  "truthyString v = (case v of None \<Rightarrow> False | Some str \<Rightarrow> str \<noteq> [])"

definition truthyNumber :: "real option \<Rightarrow> real option" where
  "truthyNumber v = (case v of None \<Rightarrow> None | Some x \<Rightarrow> if x = 0 then None else Some x)"

definition failure :: "stop_message \<Rightarrow> StopLossResult" where
  "failure msg =
     \<lparr>success = False, stopLossOrderId = None, takeProfitOrderId = None, message = msg\<rparr>"

text \<open>
  How one of the two \<open>try\<close> blocks ends: it is skipped (no price given, or a price that
  is not positive), it throws, or it creates the order and leaves the identifier the
  exchange returned (which may be missing) and the adjusted price.
\<close>

datatype block_outcome = Skipped | BlockFailed stop_error | Created "string option" real

definition createTrigger ::
  "(TriggerOrder \<Rightarrow> string + string option) \<Rightarrow> stop_error + (real \<times> TriggerOrder) \<Rightarrow>
   block_outcome \<times> api_call list" where
  "createTrigger createPriceTriggeredOrder built =
     (case built of
        Inl e \<Rightarrow> (BlockFailed e, [])
      | Inr (adjusted, order) \<Rightarrow>
          (case createPriceTriggeredOrder order of
             Inl e \<Rightarrow> (BlockFailed (ExchangeError e), [CreatePriceTriggeredOrder order])
           | Inr orderId \<Rightarrow> (Created orderId adjusted, [CreatePriceTriggeredOrder order])))"

text \<open>Lines 1284 to 1373: the stop-loss block.\<close>

definition stopLossBlock ::
  "stop_loss_api \<Rightarrow> string \<Rightarrow> position_side \<Rightarrow> int \<Rightarrow> real option \<Rightarrow> block_outcome \<times> api_call list" where
  "stopLossBlock api contract side closeSize stopLoss =
     (case stopLoss of
        None \<Rightarrow> (Skipped, [])
      | Some sl \<Rightarrow>
          if sl > 0
          then createTrigger (sl_createStopLoss api) (stopLossOrder api contract side closeSize sl)
          else (Skipped, []))"

text \<open>Lines 1376 to 1470: the take-profit block.\<close>

definition takeProfitBlock ::
  "stop_loss_api \<Rightarrow> string \<Rightarrow> position_side \<Rightarrow> int \<Rightarrow> real option \<Rightarrow> block_outcome \<times> api_call list" where
  "takeProfitBlock api contract side closeSize takeProfit =
     (case takeProfit of
        None \<Rightarrow> (Skipped, [])
      | Some tp \<Rightarrow>
          if tp > 0
          then createTrigger (sl_createTakeProfit api)
                 (takeProfitOrder api contract side closeSize tp)
          else (Skipped, []))"

definition createdId :: "block_outcome \<Rightarrow> string option" where
  "createdId outcome = (case outcome of Created orderId _ \<Rightarrow> orderId | _ \<Rightarrow> None)"

text \<open>The price variable after a block: reassigned to the adjusted price when the order
  was created, the parameter otherwise.\<close>

definition priceAfter :: "block_outcome \<Rightarrow> real option \<Rightarrow> real option" where
  "priceAfter outcome price = (case outcome of Created _ adjusted \<Rightarrow> Some adjusted | _ \<Rightarrow> price)"

text \<open>The position the call works on: the first of the contract, if its size is not 0.\<close>

definition heldPosition :: "PositionInfo list \<Rightarrow> string \<Rightarrow> PositionInfo option" where
  "heldPosition ps contract =
     (case find (\<lambda>p. pi_contract p = contract) ps of
        None \<Rightarrow> None
      | Some position \<Rightarrow> if \<bar>pi_size position\<bar> = 0 then None else Some position)"

definition positionSide :: "PositionInfo \<Rightarrow> position_side" where
  "positionSide position = (if pi_size position > 0 then Long else Short)"

definition positionCloseSize :: "PositionInfo \<Rightarrow> int" where
  "positionCloseSize position = \<bar>js_round (pi_size position)\<bar>"

text \<open>
  The whole call: the result and the calls made to the exchange, in order. Cancelling the
  existing trigger orders comes first; an error of that call is swallowed.
\<close>

definition setPositionStopLoss ::
  "stop_loss_api \<Rightarrow> string \<Rightarrow> real option \<Rightarrow> real option \<Rightarrow> StopLossResult \<times> api_call list" where
  "setPositionStopLoss api contract stopLoss takeProfit =
     (case sl_getPositions api of
        Inl e \<Rightarrow> (failure (SetFailed e), [])
      | Inr ps \<Rightarrow>
          (case heldPosition ps contract of
             None \<Rightarrow> (failure NoPositionFound, [])
           | Some position \<Rightarrow>
               (let side = positionSide position;
                    closeSize = positionCloseSize position;
                    cancel = [CancelPriceTriggeredOrderList contract]
                in case stopLossBlock api contract side closeSize stopLoss of
                     (BlockFailed e, slCalls) \<Rightarrow> (failure (StopLossFailed e), cancel @ slCalls)
                   | (slOutcome, slCalls) \<Rightarrow>
                       (case takeProfitBlock api contract side closeSize takeProfit of
                          (BlockFailed e, tpCalls) \<Rightarrow>
                            (if truthyString (createdId slOutcome)
                             then \<lparr>success = True, stopLossOrderId = createdId slOutcome,
                                   takeProfitOrderId = None,
                                   message = StopLossSetTakeProfitFailed e\<rparr>
                             else failure (TakeProfitFailed e),
                             cancel @ slCalls @ tpCalls)
                        | (tpOutcome, tpCalls) \<Rightarrow>
                            (\<lparr>success = True, stopLossOrderId = createdId slOutcome,
                              takeProfitOrderId = createdId tpOutcome,
                              message = StopsSet (truthyNumber (priceAfter slOutcome stopLoss))
                                          (truthyNumber (priceAfter tpOutcome takeProfit))\<rparr>,
                             cancel @ slCalls @ tpCalls)))))"


section \<open>Fee service\<close>

text \<open>
  Source: the class \<open>FeeService\<close> (src/src/services/feeService.ts). The table
  \<open>RISK_PARAMS.FEE_RATES\<close> (config/riskParams, not among the sources) is a parameter.
\<close>

datatype fee_source = Actual | Estimated

record FeeCalculationResult =
  fee :: real
  fee_from :: fee_source
  rate :: "real option"

text \<open>
  An identifier field of a fill as the exchange adapter hands it over: a string, a number
  (kept by its decimal rendering, what \<open>toString\<close> gives) or absent.
\<close>

datatype id_field = IdString string | IdNumber string | IdAbsent

text \<open>
  A fill (\<open>TradeRecord\<close>). The fee is \<open>None\<close> when the field is missing or empty, where
  the source reads \<open>trade.fee || '0'\<close>.
\<close>

record TradeRecord =
  tr_id :: id_field
  tr_order_id :: id_field
  tr_orderId :: id_field
  tr_price :: real
  tr_size :: "real option"
  tr_qty :: "real option"
  tr_fee :: "real option"

datatype exchange_name = Binance | Gate

record fee_config =
  maker :: real
  taker :: real

record fee_exchange =
  fx_getExchangeName :: exchange_name
  fx_isTestnet :: bool
  fx_getMyTrades :: "string \<Rightarrow> nat \<Rightarrow> int \<Rightarrow> string + TradeRecord list"

type_synonym fee_cache = "string \<rightharpoonup> (FeeCalculationResult \<times> int)"

definition CACHE_TTL :: int where
  "CACHE_TTL = 300000"

text \<open>\<open>t.order_id === orderId\<close>: strict equality holds for a string field only.\<close>

definition strictEq :: "id_field \<Rightarrow> string \<Rightarrow> bool" where
  "strictEq f orderId = (case f of IdString v \<Rightarrow> v = orderId | _ \<Rightarrow> False)"

definition tradeFee :: "TradeRecord \<Rightarrow> real" where
  "tradeFee trade = (case tr_fee trade of None \<Rightarrow> 0 | Some f \<Rightarrow> f)"

text \<open>The three steps of \<open>getActualFeeFromTrade\<close> before the sum: the cache entry that is
  still fresh, the start of the query window, and the fills of the order.\<close>

definition cachedFee :: "fee_cache \<Rightarrow> int \<Rightarrow> string \<Rightarrow> FeeCalculationResult option" where
  "cachedFee feeCache now orderId =
     (case feeCache orderId of
        None \<Rightarrow> None
      | Some (result, timestamp) \<Rightarrow> if now - timestamp < CACHE_TTL then Some result else None)"

definition queryStartTime :: "int \<Rightarrow> int option \<Rightarrow> int" where
  "queryStartTime now startTime =
     (case startTime of
        None \<Rightarrow> now - 24 * 60 * 60 * 1000
      | Some t \<Rightarrow> if t = 0 then now - 24 * 60 * 60 * 1000 else t)"

definition matchedTrades :: "string \<Rightarrow> TradeRecord list \<Rightarrow> TradeRecord list" where
  "matchedTrades orderId fills =
     filter (\<lambda>t. strictEq (tr_order_id t) orderId \<or> strictEq (tr_id t) orderId) fills"

definition getActualFeeFromTrade ::
  "fee_exchange \<Rightarrow> int \<Rightarrow> string \<Rightarrow> string \<Rightarrow> int option \<Rightarrow> fee_cache \<Rightarrow>
   FeeCalculationResult option \<times> fee_cache" where
  "getActualFeeFromTrade exchangeClient now orderId contract startTime feeCache =
     (case cachedFee feeCache now orderId of
        Some result \<Rightarrow> (Some result, feeCache)
      | None \<Rightarrow>
          (case fx_getMyTrades exchangeClient contract 100 (queryStartTime now startTime) of
             Inl e \<Rightarrow> (None, feeCache)
           | Inr fills \<Rightarrow>
               if length (matchedTrades orderId fills) = 0 then (None, feeCache)
               else
                 (let totalFee = foldl (\<lambda>sum trade. sum + \<bar>tradeFee trade\<bar>) 0
                                   (matchedTrades orderId fills);
                      result = \<lparr>fee = totalFee, fee_from = Actual, rate = None\<rparr>
                  in (Some result, feeCache(orderId \<mapsto> (result, now))))))"

definition estimateFee ::
  "(exchange_name \<Rightarrow> bool \<Rightarrow> fee_config) \<Rightarrow> fee_exchange \<Rightarrow> real \<Rightarrow> bool \<Rightarrow> FeeCalculationResult" where
  "estimateFee FEE_RATES exchangeClient notionalValue isMaker =
     (let feeConfig = FEE_RATES (fx_getExchangeName exchangeClient) (fx_isTestnet exchangeClient);
          feeRate = (if isMaker then maker feeConfig else taker feeConfig)
      in \<lparr>fee = \<bar>notionalValue * feeRate\<bar>, fee_from = Estimated, rate = Some feeRate\<rparr>)"

definition getFee ::
  "(exchange_name \<Rightarrow> bool \<Rightarrow> fee_config) \<Rightarrow> fee_exchange \<Rightarrow> int \<Rightarrow> string option \<Rightarrow> string \<Rightarrow>
   real \<Rightarrow> bool \<Rightarrow> int option \<Rightarrow> fee_cache \<Rightarrow> FeeCalculationResult \<times> fee_cache" where
  "getFee FEE_RATES exchangeClient now orderId contract notionalValue isMaker startTime feeCache =
     (let estimated = estimateFee FEE_RATES exchangeClient notionalValue isMaker
      in case orderId of
           None \<Rightarrow> (estimated, feeCache)
         | Some oid \<Rightarrow>
             if oid = [] then (estimated, feeCache)
             else
               (case getActualFeeFromTrade exchangeClient now oid contract startTime feeCache of
                  (Some actualFee, feeCache') \<Rightarrow>
                    if fee actualFee > 0 then (actualFee, feeCache') else (estimated, feeCache')
                | (None, feeCache') \<Rightarrow> (estimated, feeCache')))"


section \<open>Reconciler\<close>

text \<open>
  Source: src/src/scheduler/inconsistentStateResolver.ts; the alert levels are the enum
  \<open>AlertLevel\<close> of the e-mail alert service (src/src/utils/orderIdExtractor.ts, second document).
\<close>

subsection \<open>\<open>ResolveFailureTracker\<close>\<close>

datatype AlertLevel = INFO | WARNING | ERROR | CRITICAL

text \<open>
  The details of the two alerts the tracker sends: for one state its id, its failure count
  and the running total; for the whole service the running total, the number of failing
  states and their ids. Titles and message texts are left out.
\<close>

datatype alert_details = StateFailing int nat nat | ServiceFailing nat nat "int list"

record AlertMessage =
  level :: AlertLevel
  details :: alert_details

record ResolveFailureTracker =
  trk_consecutiveFailures :: nat
  failedStates :: "(int \<times> nat) list"

definition newTracker :: ResolveFailureTracker where
  "newTracker = \<lparr>trk_consecutiveFailures = 0, failedStates = []\<rparr>"

definition failureCount :: "ResolveFailureTracker \<Rightarrow> int \<Rightarrow> nat" where
  "failureCount t stateId = (case map_of (failedStates t) stateId of None \<Rightarrow> 0 | Some c \<Rightarrow> c)"

definition trk_recordFailure ::
  "int \<Rightarrow> ResolveFailureTracker \<Rightarrow> ResolveFailureTracker \<times> AlertMessage list" where
  "trk_recordFailure stateId t =
     (let count = failureCount t stateId + 1;
          t1 = t\<lparr>failedStates := AList.update stateId count (failedStates t),
                 trk_consecutiveFailures := trk_consecutiveFailures t + 1\<rparr>
      in (t1,
          if count \<ge> 5
          then [\<lparr>level = ERROR,
                 details = StateFailing stateId count (trk_consecutiveFailures t1)\<rparr>]
          else []))"

definition trk_recordSuccess :: "int \<Rightarrow> ResolveFailureTracker \<Rightarrow> ResolveFailureTracker" where
  "trk_recordSuccess stateId t =
     t\<lparr>failedStates := AList.delete stateId (failedStates t), trk_consecutiveFailures := 0\<rparr>"

definition checkOverallFailures :: "ResolveFailureTracker \<Rightarrow> AlertMessage list" where
  "checkOverallFailures t =
     (if trk_consecutiveFailures t \<ge> 10
      then [\<lparr>level = CRITICAL,
             details = ServiceFailing (trk_consecutiveFailures t) (length (failedStates t))
                         (map fst (failedStates t))\<rparr>]
      else [])"

subsection \<open>The store\<close>

text \<open>
  The tables the reconciler touches, with the columns it reads or writes. A timestamp is
  the instant in milliseconds that its ISO string denotes (the strings of \<open>toISOString\<close>
  sort as their instants do).
\<close>

record PositionRow =
  p_symbol :: string
  p_side :: string
  p_quantity :: real

record PriceOrderRow =
  pr_order_id :: string
  pr_symbol :: string
  pr_side :: string
  pr_status :: string
  pr_updated_at :: int

record TradeRow =
  t_order_id :: string
  t_symbol :: string
  t_side :: string
  t_type :: string
  t_price :: real
  t_quantity :: real
  t_leverage :: "real option"
  t_pnl :: "real option"
  t_fee :: real
  t_timestamp :: int
  t_status :: string

record CloseEventRow =
  e_symbol :: string
  e_side :: string
  e_entry_price :: real
  e_close_price :: real
  e_quantity :: real
  e_leverage :: real
  e_pnl :: real
  e_pnl_percent :: real
  e_fee :: real
  e_close_reason :: string
  e_trigger_type :: string
  e_order_id :: string
  e_created_at :: int
  e_processed :: nat

record InconsistentStateRow =
  is_id :: int
  is_operation :: string
  is_symbol :: string
  is_side :: string
  is_exchange_order_id :: string
  is_created_at :: int
  is_resolved :: nat
  is_resolved_at :: "int option"
  is_resolved_by :: "string option"

record Store =
  positions :: "PositionRow list"
  price_orders :: "PriceOrderRow list"
  trades :: "TradeRow list"
  position_close_events :: "CloseEventRow list"
  inconsistent_states :: "InconsistentStateRow list"

text \<open>The SQL statements of the reconciler, with their arguments.\<close>

datatype sql =
    BeginTransaction
  | Commit
  | Rollback
  | SelectUnresolvedStates
  | SelectLatestOpenTrade string string
  | DeletePosition string string
  | CancelActivePriceOrders int string string
  | InsertTrade TradeRow
  | InsertCloseEvent CloseEventRow
  | MarkStateResolved int int

datatype sql_rows = NoRows | StateRows "InconsistentStateRow list" | TradeRows "TradeRow list"

text \<open>
  Modelled from the semantics of SQL on one connection (the database is outside the
  sources): the connection holds the current tables, the snapshot taken by an open
  transaction and the journal of the statements issued so far. \<open>BEGIN\<close> fails inside a
  transaction, \<open>COMMIT\<close> and \<open>ROLLBACK\<close> fail outside of one, \<open>ROLLBACK\<close> restores the
  snapshot. Besides, any statement may fail for reasons of the environment: the fault
  oracle tells, for the position of a statement in the journal and the statement, whether
  it fails; a failed statement changes no table.
\<close>

record Db =
  tables :: Store
  snapshot :: "Store option"
  journal :: "sql list"

fun latestRow :: "TradeRow list \<Rightarrow> TradeRow option" where
  "latestRow [] = None"
| "latestRow (r # rs) =
     (case latestRow rs of
        None \<Rightarrow> Some r
      | Some r' \<Rightarrow> if t_timestamp r' > t_timestamp r then Some r' else Some r)"

definition applySql :: "sql \<Rightarrow> Db \<Rightarrow> (string + sql_rows) \<times> Db" where
  "applySql q db =
     (let st = tables db in
      case q of
        BeginTransaction \<Rightarrow>
          (case snapshot db of
             Some _ \<Rightarrow> (Inl ''cannot start a transaction within a transaction'', db)
           | None \<Rightarrow> (Inr NoRows, db\<lparr>snapshot := Some st\<rparr>))
      | Commit \<Rightarrow>
          (case snapshot db of
             None \<Rightarrow> (Inl ''cannot commit - no transaction is active'', db)
           | Some _ \<Rightarrow> (Inr NoRows, db\<lparr>snapshot := None\<rparr>))
      | Rollback \<Rightarrow>
          (case snapshot db of
             None \<Rightarrow> (Inl ''cannot rollback - no transaction is active'', db)
           | Some old \<Rightarrow> (Inr NoRows, db\<lparr>tables := old, snapshot := None\<rparr>))
      | SelectUnresolvedStates \<Rightarrow>
          (Inr (StateRows (sort_key is_created_at
                  (filter (\<lambda>r. is_resolved r = 0) (inconsistent_states st)))), db)
      | SelectLatestOpenTrade symbol side \<Rightarrow>
          (Inr (TradeRows
                  (case latestRow (filter (\<lambda>r. t_symbol r = symbol \<and> t_side r = side \<and>
                                               t_type r = ''open'') (trades st)) of
                     None \<Rightarrow> []
                   | Some r \<Rightarrow> [r])), db)
      | DeletePosition symbol side \<Rightarrow>
          (Inr NoRows,
           db\<lparr>tables := st\<lparr>positions :=
                  filter (\<lambda>r. \<not> (p_symbol r = symbol \<and> p_side r = side)) (positions st)\<rparr>\<rparr>)
      | CancelActivePriceOrders timestamp symbol side \<Rightarrow>
          (Inr NoRows,
           db\<lparr>tables := st\<lparr>price_orders :=
                  map (\<lambda>r. if pr_symbol r = symbol \<and> pr_side r = side \<and> pr_status r = ''active''
                            then r\<lparr>pr_status := ''cancelled'', pr_updated_at := timestamp\<rparr>
                            else r) (price_orders st)\<rparr>\<rparr>)
      | InsertTrade row \<Rightarrow>
          (Inr NoRows, db\<lparr>tables := st\<lparr>trades := trades st @ [row]\<rparr>\<rparr>)
      | InsertCloseEvent row \<Rightarrow>
          (Inr NoRows,
           db\<lparr>tables := st\<lparr>position_close_events := position_close_events st @ [row]\<rparr>\<rparr>)
      | MarkStateResolved timestamp stateId \<Rightarrow>
          (Inr NoRows,
           db\<lparr>tables := st\<lparr>inconsistent_states :=
                  map (\<lambda>r. if is_id r = stateId
                            then r\<lparr>is_resolved := 1, is_resolved_at := Some timestamp,
                                   is_resolved_by := Some ''auto''\<rparr>
                            else r) (inconsistent_states st)\<rparr>\<rparr>))"

definition execute :: "(nat \<Rightarrow> sql \<Rightarrow> bool) \<Rightarrow> sql \<Rightarrow> Db \<Rightarrow> (string + sql_rows) \<times> Db" where
  "execute faults q db =
     (let db1 = db\<lparr>journal := journal db @ [q]\<rparr>
      in if faults (length (journal db)) q then (Inl ''statement failed'', db1)
         else applySql q db1)"

text \<open>Statements in sequence, up to the first that throws.\<close>

fun executeAll :: "(nat \<Rightarrow> sql \<Rightarrow> bool) \<Rightarrow> sql list \<Rightarrow> Db \<Rightarrow> (string + sql_rows) \<times> Db" where
  "executeAll faults [] db = (Inr NoRows, db)"
| "executeAll faults (q # qs) db =
     (case execute faults q db of
        (Inl e, db') \<Rightarrow> (Inl e, db')
      | (Inr _, db') \<Rightarrow> executeAll faults qs db')"


subsection \<open>\<open>InconsistentStateResolver\<close>\<close>

datatype contract_type = Inverse | Linear

text \<open>
  The capabilities of the exchange client the resolver calls, each with the error it may
  throw; \<open>getQuantoMultiplier\<close> (utils/contractUtils, not among the sources) is taken
  along as one more capability.
\<close>

record resolver_exchange =
  rx_getPositions :: "string + PositionInfo list"
  rx_normalizeContract :: "string \<Rightarrow> string"
  rx_getMyTrades :: "string \<Rightarrow> nat \<Rightarrow> string + TradeRecord list"
  rx_calculatePnl :: "real \<Rightarrow> real \<Rightarrow> real \<Rightarrow> string \<Rightarrow> string \<Rightarrow> string + real"
  rx_getContractType :: contract_type
  rx_getQuantoMultiplier :: "string \<Rightarrow> string + real"

text \<open>The Gate client's own \<open>normalizeContract\<close> and \<open>calculatePnl\<close> (lines 596 and 1209).\<close>

definition gate_normalizeContract :: "string \<Rightarrow> string" where
  "gate_normalizeContract symbol = symbol @ ''_USDT''"

definition gate_calculatePnl ::
  "(string \<Rightarrow> string + real) \<Rightarrow> real \<Rightarrow> real \<Rightarrow> real \<Rightarrow> string \<Rightarrow> string \<Rightarrow> string + real" where
  "gate_calculatePnl getQuantoMultiplier entryPrice exitPrice quantity side contract =
     (case getQuantoMultiplier contract of
        Inl e \<Rightarrow> Inl e
      | Inr quantoMultiplier \<Rightarrow>
          (let priceChange = (if side = ''long'' then exitPrice - entryPrice
                              else entryPrice - exitPrice)
           in Inr (priceChange * quantity * quantoMultiplier)))"

text \<open>\<open>t.orderId?.toString() === exchange_order_id\<close>, for each of the three id fields.\<close>

definition idToString :: "id_field \<Rightarrow> string option" where
  "idToString f = (case f of IdString v \<Rightarrow> Some v | IdNumber v \<Rightarrow> Some v | IdAbsent \<Rightarrow> None)"

definition matchesOrder :: "string \<Rightarrow> TradeRecord \<Rightarrow> bool" where
  "matchesOrder exchange_order_id t =
     (idToString (tr_orderId t) = Some exchange_order_id \<or>
      idToString (tr_order_id t) = Some exchange_order_id \<or>
      idToString (tr_id t) = Some exchange_order_id)"

text \<open>
  \<open>Math.abs(parseFloat(closeTrade.size || closeTrade.qty || '0'))\<close>; a size that is
  missing or the number 0 is falsy.
\<close>

definition fillQuantity :: "TradeRecord \<Rightarrow> real" where
  "fillQuantity closeTrade =
     \<bar>case truthyNumber (tr_size closeTrade) of
        Some v \<Rightarrow> v
      | None \<Rightarrow> (case truthyNumber (tr_qty closeTrade) of Some v \<Rightarrow> v | None \<Rightarrow> 0)\<bar>"

definition openLeverage :: "TradeRow \<Rightarrow> real" where
  "openLeverage openTrade = (case truthyNumber (t_leverage openTrade) of Some l \<Rightarrow> l | None \<Rightarrow> 1)"

text \<open>
  Lines 262 to 302 and the argument lists of the two inserts: the close trade row and the
  close event row computed from the open trade and the matching fill, or the error thrown
  on the way. (A margin of 0, where JavaScript divides to \<open>Infinity\<close> or \<open>NaN\<close>, is
  outside the idealisation of numbers as reals.)
\<close>

definition closeRecords ::
  "resolver_exchange \<Rightarrow> int \<Rightarrow> InconsistentStateRow \<Rightarrow> string \<Rightarrow> TradeRow \<Rightarrow> TradeRecord \<Rightarrow>
   string + (TradeRow \<times> CloseEventRow)" where
  "closeRecords exchangeClient timestamp state contract openTrade closeTrade =
     (let symbol = is_symbol state;
          side = is_side state;
          exchange_order_id = is_exchange_order_id state;
          entryPrice = t_price openTrade;
          exitPrice = tr_price closeTrade;
          quantity = fillQuantity closeTrade;
          leverage = openLeverage openTrade
      in case rx_calculatePnl exchangeClient entryPrice exitPrice quantity side contract of
           Inl e \<Rightarrow> Inl e
         | Inr grossPnl \<Rightarrow>
             (let contractType = rx_getContractType exchangeClient;
                  finish = (\<lambda>positionValue openPositionValue.
                    (let totalFee = positionValue * 0.001;
                         netPnl = grossPnl - totalFee;
                         margin = openPositionValue / leverage;
                         pnlPercent = (netPnl / margin) * 100
                     in Inr (\<lparr>t_order_id = exchange_order_id, t_symbol = symbol, t_side = side,
                               t_type = ''close'', t_price = exitPrice, t_quantity = quantity,
                               t_leverage = Some leverage, t_pnl = Some netPnl, t_fee = totalFee,
                               t_timestamp = timestamp, t_status = ''filled''\<rparr>,
                             \<lparr>e_symbol = symbol, e_side = side, e_entry_price = entryPrice,
                               e_close_price = exitPrice, e_quantity = quantity,
                               e_leverage = leverage, e_pnl = netPnl, e_pnl_percent = pnlPercent,
                               e_fee = totalFee, e_close_reason = ''system_recovered'',
                               e_trigger_type = ''auto_fix'', e_order_id = exchange_order_id,
                               e_created_at = timestamp, e_processed = 1\<rparr>)))
              in if contractType = Inverse then
                   (case rx_getQuantoMultiplier exchangeClient contract of
                      Inl e \<Rightarrow> Inl e
                    | Inr quantoMultiplier \<Rightarrow>
                        finish (quantity * quantoMultiplier * exitPrice)
                               (quantity * quantoMultiplier * entryPrice))
                 else finish (quantity * exitPrice) (quantity * entryPrice)))"

text \<open>Lines 304 to 356: the transaction that writes the records.\<close>

definition writeCloseRecords ::
  "(nat \<Rightarrow> sql \<Rightarrow> bool) \<Rightarrow> int \<Rightarrow> string \<Rightarrow> string \<Rightarrow> TradeRow \<Rightarrow> CloseEventRow \<Rightarrow> Db \<Rightarrow> bool \<times> Db" where
  "writeCloseRecords faults timestamp symbol side tradeRow eventRow db =
     (case execute faults BeginTransaction db of
        (Inl e, db1) \<Rightarrow> (False, db1)
      | (Inr _, db1) \<Rightarrow>
          (case executeAll faults
                  [DeletePosition symbol side,
                   CancelActivePriceOrders timestamp symbol side,
                   InsertTrade tradeRow,
                   InsertCloseEvent eventRow,
                   Commit] db1 of
             (Inr _, db2) \<Rightarrow> (True, db2)
           | (Inl dbError, db2) \<Rightarrow> (False, snd (execute faults Rollback db2))))"

definition resolveClosePosition ::
  "(nat \<Rightarrow> sql \<Rightarrow> bool) \<Rightarrow> resolver_exchange \<Rightarrow> int \<Rightarrow> InconsistentStateRow \<Rightarrow> Db \<Rightarrow> bool \<times> Db" where
  "resolveClosePosition faults exchangeClient timestamp state db =
     (let symbol = is_symbol state;
          side = is_side state;
          exchange_order_id = is_exchange_order_id state
      in case rx_getPositions exchangeClient of
           Inl e \<Rightarrow> (False, db)
         | Inr exchangePositions \<Rightarrow>
             (let contract = rx_normalizeContract exchangeClient symbol;
                  positionExists =
                    list_ex (\<lambda>p. pi_contract p = contract \<and> \<bar>pi_size p\<bar> > 0) exchangePositions
              in if positionExists then (False, db)
                 else
                   (case rx_getMyTrades exchangeClient contract 100 of
                      Inl e \<Rightarrow> (False, db)
                    | Inr fills \<Rightarrow>
                        (case find (matchesOrder exchange_order_id) fills of
                           None \<Rightarrow> (False, db)
                         | Some closeTrade \<Rightarrow>
                             (case execute faults (SelectLatestOpenTrade symbol side) db of
                                (Inr (TradeRows (openTrade # _)), db1) \<Rightarrow>
                                  (case closeRecords exchangeClient timestamp state contract
                                          openTrade closeTrade of
                                     Inl e \<Rightarrow> (False, db1)
                                   | Inr (tradeRow, eventRow) \<Rightarrow>
                                       writeCloseRecords faults timestamp symbol side tradeRow
                                         eventRow db1)
                              | (_, db1) \<Rightarrow> (False, db1))))))"

definition resolveState ::
  "(nat \<Rightarrow> sql \<Rightarrow> bool) \<Rightarrow> resolver_exchange \<Rightarrow> int \<Rightarrow> InconsistentStateRow \<Rightarrow> Db \<Rightarrow> bool \<times> Db" where
  "resolveState faults exchangeClient timestamp state db =
     (if is_operation state = ''close_position'' then
        resolveClosePosition faults exchangeClient timestamp state db
      else if is_operation state = ''price_order_triggered'' then
        resolveClosePosition faults exchangeClient timestamp state db
      else (False, db))"

text \<open>
  Lines 150 to 173: the loop over the unresolved rows, threading the tracker, the alerts
  sent and the database.
\<close>

fun resolveEach ::
  "(nat \<Rightarrow> sql \<Rightarrow> bool) \<Rightarrow> resolver_exchange \<Rightarrow> int \<Rightarrow> InconsistentStateRow list \<Rightarrow>
   ResolveFailureTracker \<times> AlertMessage list \<times> Db \<Rightarrow> ResolveFailureTracker \<times> AlertMessage list \<times> Db" where
  "resolveEach faults exchangeClient timestamp [] acc = acc"
| "resolveEach faults exchangeClient timestamp (state # rest) (tracker, alerts, db) =
     (let failed = (\<lambda>db'. case trk_recordFailure (is_id state) tracker of
                            (tracker', sent) \<Rightarrow> (tracker', alerts @ sent, db'))
      in resolveEach faults exchangeClient timestamp rest
           (case resolveState faults exchangeClient timestamp state db of
              (True, db1) \<Rightarrow>
                (case execute faults (MarkStateResolved timestamp (is_id state)) db1 of
                   (Inr _, db2) \<Rightarrow> (trk_recordSuccess (is_id state) tracker, alerts, db2)
                 | (Inl e, db2) \<Rightarrow> failed db2)
            | (False, db1) \<Rightarrow> failed db1))"

definition resolveInconsistentStates ::
  "(nat \<Rightarrow> sql \<Rightarrow> bool) \<Rightarrow> resolver_exchange \<Rightarrow> int \<Rightarrow> ResolveFailureTracker \<Rightarrow> Db \<Rightarrow>
   ResolveFailureTracker \<times> AlertMessage list \<times> Db" where
  "resolveInconsistentStates faults exchangeClient timestamp tracker db =
     (case execute faults SelectUnresolvedStates db of
        (Inr (StateRows rows), db1) \<Rightarrow>
          if length rows = 0 then (tracker, [], db1)
          else
            (case resolveEach faults exchangeClient timestamp rows (tracker, [], db1) of
               (tracker', alerts, db2) \<Rightarrow> (tracker', alerts @ checkOverallFailures tracker', db2))
      | (_, db1) \<Rightarrow> (tracker, [], db1))"


section \<open>HTTP read API: \<open>GET /api/prices\<close>\<close>

text \<open>
  Source: the handler of \<open>/api/prices\<close> in \<open>createApiRoutes\<close> (src/unnamed/part_001, lines
  444 to 496), with the module-level \<open>priceCache\<close>. The prices object is kept as the list of
  its entries in insertion order.
\<close>

record PriceCache =
  pc_prices :: "(string \<times> real) list"
  pc_timestamp :: int

definition PRICE_CACHE_TTL :: int where
  "PRICE_CACHE_TTL = 5000"

definition DEFAULT_TRADING_SYMBOLS :: string where
  "DEFAULT_TRADING_SYMBOLS = ''BTC,ETH,SOL,XRP,BNB,BCH''"

text \<open>\<open>String.prototype.split\<close> on one separator character, and \<open>trim\<close> (ASCII white space).\<close>

fun splitOn :: "char \<Rightarrow> string \<Rightarrow> string list" where
  "splitOn c [] = [[]]"
| "splitOn c (x # xs) =
     (if x = c then [] # splitOn c xs
      else (case splitOn c xs of
              [] \<Rightarrow> [[x]]
            | w # ws \<Rightarrow> (x # w) # ws))"

definition isSpace :: "char \<Rightarrow> bool" where
  "isSpace c = (c \<in> set [CHR '' '', CHR 0x09, CHR 0x0A, CHR 0x0B, CHR 0x0C, CHR 0x0D])"

definition trim :: "string \<Rightarrow> string" where
  "trim str = rev (dropWhile isSpace (rev (dropWhile isSpace str)))"

text \<open>
  The request carries the query parameter \<open>symbols\<close>; the environment carries
  \<open>process.env.TRADING_SYMBOLS\<close> and the exchange client (or the error \<open>getExchangeClient\<close>
  throws), of which the handler uses \<open>normalizeContract\<close> and the last price of the ticker
  of a contract.
\<close>

record prices_request =
  rq_symbols :: "string option"

record price_exchange =
  px_normalizeContract :: "string \<Rightarrow> string"
  px_lastPrice :: "string \<Rightarrow> string + real"

record prices_env =
  env_TRADING_SYMBOLS :: "string option"
  env_getExchangeClient :: "string + price_exchange"

datatype prices_response = PricesJson "(string \<times> real) list" | ErrorJson string

definition tradingSymbols :: "prices_env \<Rightarrow> string list" where
  "tradingSymbols env =
     (let tradingSymbolsStr = (case env_TRADING_SYMBOLS env of
                                 None \<Rightarrow> DEFAULT_TRADING_SYMBOLS
                               | Some v \<Rightarrow> if v = [] then DEFAULT_TRADING_SYMBOLS else v)
      in map trim (splitOn CHR '','' tradingSymbolsStr))"

definition fetchPrice :: "price_exchange \<Rightarrow> PriceCache option \<Rightarrow> string \<Rightarrow> real" where
  "fetchPrice exchangeClient priceCache symbol =
     (case px_lastPrice exchangeClient (px_normalizeContract exchangeClient symbol) of
        Inr lastPrice \<Rightarrow> lastPrice
      | Inl e \<Rightarrow>
          (case priceCache of
             None \<Rightarrow> 0
           | Some cache \<Rightarrow>
               (case map_of (pc_prices cache) symbol of
                  None \<Rightarrow> 0
                | Some old \<Rightarrow> if old \<noteq> 0 then old else 0)))"

text \<open>
  The batches of five symbols, with a pause of 100 ms between two batches, are folded into
  one pass over the symbols: they change the time the pass takes, not the prices it
  collects. \<open>now\<close> is the clock on entry and \<open>fetchedAt\<close> the clock when the pass is over.
\<close>

definition pricesHandler ::
  "prices_env \<Rightarrow> int \<Rightarrow> int \<Rightarrow> prices_request \<Rightarrow> PriceCache option \<Rightarrow>
   prices_response \<times> PriceCache option" where
  "pricesHandler env now fetchedAt request priceCache =
     (let symbols = tradingSymbols env
      in case env_getExchangeClient env of
           Inl e \<Rightarrow> (ErrorJson e, priceCache)
         | Inr exchangeClient \<Rightarrow>
             (let fresh = (case priceCache of
                             None \<Rightarrow> None
                           | Some cache \<Rightarrow>
                               if now - pc_timestamp cache < PRICE_CACHE_TTL then Some cache
                               else None)
              in case fresh of
                   Some cache \<Rightarrow> (PricesJson (pc_prices cache), priceCache)
                 | None \<Rightarrow>
                     (let prices = foldl (\<lambda>acc symbol.
                              AList.update symbol (fetchPrice exchangeClient priceCache symbol) acc)
                            [] symbols
                      in (PricesJson prices,
                          Some \<lparr>pc_prices = prices, pc_timestamp = fetchedAt\<rparr>))))"


section \<open>Specification vocabulary and concrete scenarios\<close>

text \<open>
  The notions of the specification in which the properties below are stated, and the
  states and environments on which they are exercised.
\<close>

text \<open>
  A coordinator that saw a 429 at time 1000 (back-off until 61000) and then a 418 with a
  ban of 10 seconds at time 2000 (ban until 12000).
\<close>

definition banned_then_backoff :: RateLimitManager where
  "banned_then_backoff =
     handle418Ban (Some 10) 2000 (handle429Warning 1000 (newRateLimitManager 60 100 5 30000))"

text \<open>A coordinator with a limit of two requests per minute and two requests in its ring.\<close>

definition full_ring :: RateLimitManager where
  "full_ring =
     (newRateLimitManager 2 100 5 30000)\<lparr>requestTimestamps := [1000, 2000], lastRequestTime := 2000\<rparr>"

text \<open>
  The same limit with a minimum spacing of 500 ms between two requests, and two requests in
  the ring of which the later was made at time 29900.
\<close>

definition crowded_ring :: RateLimitManager where
  "crowded_ring =
     (newRateLimitManager 2 500 5 30000)\<lparr>requestTimestamps := [29000, 29900], lastRequestTime := 29900\<rparr>"

text \<open>
  A contract whose own maximum order size lies above the cap of the API, an exchange that
  accepts every order, and a market order of a given size.
\<close>

definition big_contract :: ContractInfo where
  "big_contract = \<lparr>orderSizeMin = 1, orderSizeMax = 20000000, orderPriceRound = 0.1\<rparr>"

definition accepting_exchange :: "ContractInfo \<Rightarrow> place_order_api" where
  "accepting_exchange info =
     \<lparr>po_getContractInfo = Inr info, po_markPrice = Inr 100,
      po_createFuturesOrder = (\<lambda>order. Inr ''1001'')\<rparr>"

definition market_order :: "real \<Rightarrow> OrderParams" where
  "market_order sz =
     \<lparr>op_contract = ''BTC_USDT'', op_size = sz, op_price = None, op_tif = None,
      op_reduceOnly = False\<rparr>"

text \<open>
  The vocabulary of the trigger-price rule, in the words of the specification: a price is
  already on the triggered side of the mark when a stop-loss of a long (or a take-profit
  of a short) is at or above it, and when a stop-loss of a short (or a take-profit of a
  long) is at or below it; a safe trigger for a requested price is 0.5% from the mark on
  the valid side when the request is on the triggered side, 0.3% from the mark on the valid
  side when the request is closer than that, and the request itself otherwise. Rule 2
  fires at or below the trigger price, rule 1 at or above.
\<close>

datatype trigger_kind = StopLossTrigger | TakeProfitTrigger

definition alreadyTriggered :: "trigger_kind \<Rightarrow> position_side \<Rightarrow> real \<Rightarrow> real \<Rightarrow> bool" where
  "alreadyTriggered kind side mark p =
     (if (kind = StopLossTrigger) = (side = Long) then p \<ge> mark else p \<le> mark)"

definition safeTrigger :: "trigger_kind \<Rightarrow> position_side \<Rightarrow> real \<Rightarrow> real \<Rightarrow> real \<Rightarrow> bool" where
  "safeTrigger kind side mark p a =
     (if alreadyTriggered kind side mark p
        then \<bar>a - mark\<bar> = 0.005 * mark \<and> \<not> alreadyTriggered kind side mark a
      else if \<bar>p - mark\<bar> < 0.003 * mark
        then \<bar>a - mark\<bar> = 0.003 * mark \<and> \<not> alreadyTriggered kind side mark a
      else a = p)"

definition triggerRule :: "trigger_kind \<Rightarrow> position_side \<Rightarrow> nat" where
  "triggerRule kind side = (if (kind = StopLossTrigger) = (side = Long) then 2 else 1)"

definition isFailed :: "block_outcome \<Rightarrow> bool" where
  "isFailed outcome = (case outcome of BlockFailed _ \<Rightarrow> True | _ \<Rightarrow> False)"

text \<open>
  A long position of 3 contracts of BTC_USDT with the mark price at 100 and a tick of 0.1;
  the exchange creates every stop-loss order and answers a take-profit order as given.
  \<open>toFixed_table\<close> lists the renderings of the prices that occur.
\<close>

definition toFixed_table :: "nat \<Rightarrow> real \<Rightarrow> string" where
  "toFixed_table decimals x =
     (if x = 99.7 then ''99.7'' else if x = 100.5 then ''100.5''
      else if x = 95 then ''95.0'' else if x = 110 then ''110.0'' else ''?'')"

definition long_btc :: "(TriggerOrder \<Rightarrow> string + string option) \<Rightarrow> stop_loss_api" where
  "long_btc createTakeProfit =
     \<lparr>sl_getPositions = Inr [\<lparr>pi_contract = ''BTC_USDT'', pi_size = 3\<rparr>],
      sl_markPriceForStopLoss = Inr 100, sl_markPriceForTakeProfit = Inr 100,
      sl_tickSize = Some 0.1, sl_tickDecimals = 1, sl_toFixed = toFixed_table,
      sl_createStopLoss = (\<lambda>order. Inr (Some ''7001'')),
      sl_createTakeProfit = createTakeProfit\<rparr>"

text \<open>
  The same exchange with a short position of three contracts, where both creations succeed.
\<close>

definition short_btc :: stop_loss_api where
  "short_btc =
     \<lparr>sl_getPositions = Inr [\<lparr>pi_contract = ''BTC_USDT'', pi_size = - 3\<rparr>],
      sl_markPriceForStopLoss = Inr 100, sl_markPriceForTakeProfit = Inr 100,
      sl_tickSize = Some 0.1, sl_tickDecimals = 1, sl_toFixed = toFixed_table,
      sl_createStopLoss = (\<lambda>order. Inr (Some ''7003'')),
      sl_createTakeProfit = (\<lambda>order. Inr (Some ''7004''))\<rparr>"

text \<open>
  A fill of order o-42 that reports a fee of 0, the Gate main net with a given trade
  history, and a table of fee rates.
\<close>

definition zero_fee_fill :: TradeRecord where
  "zero_fee_fill =
     \<lparr>tr_id = IdString ''t-1'', tr_order_id = IdString ''o-42'', tr_orderId = IdAbsent,
      tr_price = 100, tr_size = Some 2, tr_qty = None, tr_fee = Some 0\<rparr>"

definition gate_mainnet :: "TradeRecord list \<Rightarrow> fee_exchange" where
  "gate_mainnet fills =
     \<lparr>fx_getExchangeName = Gate, fx_isTestnet = False,
      fx_getMyTrades = (\<lambda>contract limit startTime. Inr fills)\<rparr>"

definition sample_rates :: "exchange_name \<Rightarrow> bool \<Rightarrow> fee_config" where
  "sample_rates exchange testnet =
     (if exchange = Gate then \<lparr>maker = 0.0002, taker = 0.0005\<rparr>
      else \<lparr>maker = 0.0002, taker = 0.0004\<rparr>)"

text \<open>
  The reconciler's repair in the words of the specification: the four writes of a
  synthesized close on the store (delete the position row, mark the active price orders of
  the position cancelled, insert the close trade row, insert the close event row), the
  statements of the one transaction that performs them, the update that marks a state
  resolved, and the notional value of the closing fill.
\<close>

definition cancelActive :: "int \<Rightarrow> string \<Rightarrow> string \<Rightarrow> PriceOrderRow \<Rightarrow> PriceOrderRow" where
  "cancelActive timestamp symbol side r =
     (if pr_symbol r = symbol \<and> pr_side r = side \<and> pr_status r = ''active''
      then r\<lparr>pr_status := ''cancelled'', pr_updated_at := timestamp\<rparr> else r)"

definition closeWritten ::
  "int \<Rightarrow> string \<Rightarrow> string \<Rightarrow> TradeRow \<Rightarrow> CloseEventRow \<Rightarrow> Store \<Rightarrow> Store" where
  "closeWritten timestamp symbol side tradeRow eventRow st =
     st\<lparr>positions := filter (\<lambda>r. \<not> (p_symbol r = symbol \<and> p_side r = side)) (positions st),
        price_orders := map (cancelActive timestamp symbol side) (price_orders st),
        trades := trades st @ [tradeRow],
        position_close_events := position_close_events st @ [eventRow]\<rparr>"

definition closeTransaction :: "int \<Rightarrow> string \<Rightarrow> string \<Rightarrow> TradeRow \<Rightarrow> CloseEventRow \<Rightarrow> sql list" where
  "closeTransaction timestamp symbol side tradeRow eventRow =
     [BeginTransaction, DeletePosition symbol side, CancelActivePriceOrders timestamp symbol side,
      InsertTrade tradeRow, InsertCloseEvent eventRow, Commit]"

definition markResolved :: "int \<Rightarrow> int \<Rightarrow> InconsistentStateRow \<Rightarrow> InconsistentStateRow" where
  "markResolved timestamp stateId r =
     (if is_id r = stateId
      then r\<lparr>is_resolved := 1, is_resolved_at := Some timestamp, is_resolved_by := Some ''auto''\<rparr>
      else r)"

definition closeNotional :: "resolver_exchange \<Rightarrow> string \<Rightarrow> TradeRecord \<Rightarrow> real option" where
  "closeNotional ex contract closeTrade =
     (if rx_getContractType ex = Inverse
      then (case rx_getQuantoMultiplier ex contract of
              Inl e \<Rightarrow> None
            | Inr quantoMultiplier \<Rightarrow>
                Some (fillQuantity closeTrade * quantoMultiplier * tr_price closeTrade))
      else Some (fillQuantity closeTrade * tr_price closeTrade))"

text \<open>
  Fault oracles: no statement fails; every insert into \<open>position_close_events\<close> fails;
  every \<open>UPDATE\<close> that marks a state as resolved fails.
\<close>

definition no_faults :: "nat \<Rightarrow> sql \<Rightarrow> bool" where
  "no_faults n q = False"

definition insert_event_fails :: "nat \<Rightarrow> sql \<Rightarrow> bool" where
  "insert_event_fails n q = (case q of InsertCloseEvent _ \<Rightarrow> True | _ \<Rightarrow> False)"

definition mark_update_fails :: "nat \<Rightarrow> sql \<Rightarrow> bool" where
  "mark_update_fails n q = (case q of MarkStateResolved _ _ \<Rightarrow> True | _ \<Rightarrow> False)"

text \<open>
  An exchange that cannot be reached, a number of failures recorded for one state, and a
  number of reconciler passes in a row.
\<close>

definition unreachable_exchange :: resolver_exchange where
  "unreachable_exchange =
     \<lparr>rx_getPositions = Inl ''timeout'', rx_normalizeContract = gate_normalizeContract,
      rx_getMyTrades = (\<lambda>contract limit. Inl ''timeout''),
      rx_calculatePnl = gate_calculatePnl (\<lambda>contract. Inl ''timeout''),
      rx_getContractType = Inverse,
      rx_getQuantoMultiplier = (\<lambda>contract. Inl ''timeout'')\<rparr>"

fun reconcilePasses ::
  "nat \<Rightarrow> (nat \<Rightarrow> sql \<Rightarrow> bool) \<Rightarrow> resolver_exchange \<Rightarrow> int \<Rightarrow>
   ResolveFailureTracker \<times> AlertMessage list \<times> Db \<Rightarrow> ResolveFailureTracker \<times> AlertMessage list \<times> Db" where
  "reconcilePasses 0 faults exchangeClient timestamp acc = acc"
| "reconcilePasses (Suc n) faults exchangeClient timestamp (tracker, alerts, db) =
     (case resolveInconsistentStates faults exchangeClient timestamp tracker db of
        (tracker', sent, db') \<Rightarrow>
          reconcilePasses n faults exchangeClient timestamp (tracker', alerts @ sent, db'))"

fun failTimes ::
  "nat \<Rightarrow> int \<Rightarrow> ResolveFailureTracker \<times> AlertMessage list \<Rightarrow> ResolveFailureTracker \<times> AlertMessage list" where
  "failTimes 0 stateId acc = acc"
| "failTimes (Suc n) stateId (t, alerts) =
     (case trk_recordFailure stateId t of (t', sent) \<Rightarrow> failTimes n stateId (t', alerts @ sent))"

text \<open>
  The history of a tracker in the words of the specification: the attempts recorded so
  far, each a failure or a success on one state, oldest first. \<open>recordAttempts\<close> replays
  a history on a tracker; \<open>failuresSinceSuccess\<close> counts the failures (of whatever
  states) since the last success on any state, \<open>failuresOfSinceSuccess\<close> the failures
  on one state since the last success on that state.
\<close>

datatype attempt = Failed int | Repaired int

fun recordAttempt :: "attempt \<Rightarrow> ResolveFailureTracker \<Rightarrow> ResolveFailureTracker" where
  "recordAttempt (Failed stateId) t = fst (trk_recordFailure stateId t)"
| "recordAttempt (Repaired stateId) t = trk_recordSuccess stateId t"

definition recordAttempts :: "attempt list \<Rightarrow> ResolveFailureTracker \<Rightarrow> ResolveFailureTracker" where
  "recordAttempts attempts t = foldl (\<lambda>t' a. recordAttempt a t') t attempts"

fun isFailure :: "attempt \<Rightarrow> bool" where
  "isFailure (Failed stateId) = True"
| "isFailure (Repaired stateId) = False"

definition failuresSinceSuccess :: "attempt list \<Rightarrow> nat" where
  "failuresSinceSuccess attempts = length (takeWhile isFailure (rev attempts))"

definition failuresOfSinceSuccess :: "int \<Rightarrow> attempt list \<Rightarrow> nat" where
  "failuresOfSinceSuccess stateId attempts =
     length (filter (\<lambda>a. a = Failed stateId)
               (takeWhile (\<lambda>a. a \<noteq> Repaired stateId) (rev attempts)))"

text \<open>
  The repair scenario of the specification: the store still holds a short position in ETH
  with an active trigger order and the open trade (entry 2000, 10 contracts, leverage 5);
  the exchange holds no position and reports the fill of order 987654321 at 1900 with a fee
  of 0.5; one contract is 0.01 ETH. \<open>eth_close_trade\<close> and \<open>eth_close_event\<close> are the
  rows the repair writes at time 9000, \<open>eth_resolved_store\<close> the store after it.
\<close>

definition eth_state :: InconsistentStateRow where
  "eth_state =
     \<lparr>is_id = 7, is_operation = ''close_position'', is_symbol = ''ETH'', is_side = ''short'',
      is_exchange_order_id = ''987654321'', is_created_at = 500, is_resolved = 0,
      is_resolved_at = None, is_resolved_by = None\<rparr>"

definition eth_open_trade :: TradeRow where
  "eth_open_trade =
     \<lparr>t_order_id = ''987000000'', t_symbol = ''ETH'', t_side = ''short'', t_type = ''open'',
      t_price = 2000, t_quantity = 10, t_leverage = Some 5, t_pnl = None, t_fee = 1,
      t_timestamp = 100, t_status = ''filled''\<rparr>"

definition eth_store :: Store where
  "eth_store =
     \<lparr>positions = [\<lparr>p_symbol = ''ETH'', p_side = ''short'', p_quantity = 10\<rparr>],
      price_orders = [\<lparr>pr_order_id = ''t-1'', pr_symbol = ''ETH'', pr_side = ''short'',
                        pr_status = ''active'', pr_updated_at = 100\<rparr>],
      trades = [eth_open_trade],
      position_close_events = [],
      inconsistent_states = [eth_state]\<rparr>"

definition eth_db :: Db where
  "eth_db = \<lparr>tables = eth_store, snapshot = None, journal = []\<rparr>"

definition eth_fill :: TradeRecord where
  "eth_fill =
     \<lparr>tr_id = IdNumber ''555'', tr_order_id = IdNumber ''987654321'', tr_orderId = IdAbsent,
      tr_price = 1900, tr_size = Some (- 10), tr_qty = None, tr_fee = Some 0.5\<rparr>"

definition eth_exchange :: resolver_exchange where
  "eth_exchange =
     \<lparr>rx_getPositions = Inr [], rx_normalizeContract = gate_normalizeContract,
      rx_getMyTrades = (\<lambda>contract limit. Inr [eth_fill]),
      rx_calculatePnl = gate_calculatePnl (\<lambda>contract. Inr 0.01),
      rx_getContractType = Inverse,
      rx_getQuantoMultiplier = (\<lambda>contract. Inr 0.01)\<rparr>"

definition eth_close_trade :: TradeRow where
  "eth_close_trade =
     \<lparr>t_order_id = ''987654321'', t_symbol = ''ETH'', t_side = ''short'', t_type = ''close'',
      t_price = 1900, t_quantity = 10, t_leverage = Some 5, t_pnl = Some 9.81, t_fee = 0.19,
      t_timestamp = 9000, t_status = ''filled''\<rparr>"

definition eth_close_event :: CloseEventRow where
  "eth_close_event =
     \<lparr>e_symbol = ''ETH'', e_side = ''short'', e_entry_price = 2000, e_close_price = 1900,
      e_quantity = 10, e_leverage = 5, e_pnl = 9.81, e_pnl_percent = 24.525, e_fee = 0.19,
      e_close_reason = ''system_recovered'', e_trigger_type = ''auto_fix'',
      e_order_id = ''987654321'', e_created_at = 9000, e_processed = 1\<rparr>"


definition eth_resolved_store :: Store where
  "eth_resolved_store =
     \<lparr>positions = [],
      price_orders = [\<lparr>pr_order_id = ''t-1'', pr_symbol = ''ETH'', pr_side = ''short'',
                        pr_status = ''cancelled'', pr_updated_at = 9000\<rparr>],
      trades = [eth_open_trade, eth_close_trade],
      position_close_events = [eth_close_event],
      inconsistent_states =
        [eth_state\<lparr>is_resolved := 1, is_resolved_at := Some 9000, is_resolved_by := Some ''auto''\<rparr>]\<rparr>"

text \<open>
  An exchange that quotes one last price for every contract, the environment without
  \<open>TRADING_SYMBOLS\<close> on top of it, a request that asks for DOGE, and the prices object of
  the default symbols at one price.
\<close>

definition quoting_exchange :: "real \<Rightarrow> price_exchange" where
  "quoting_exchange lastPrice =
     \<lparr>px_normalizeContract = gate_normalizeContract,
      px_lastPrice = (\<lambda>contract. Inr lastPrice)\<rparr>"

definition default_env :: "real \<Rightarrow> prices_env" where
  "default_env lastPrice =
     \<lparr>env_TRADING_SYMBOLS = None, env_getExchangeClient = Inr (quoting_exchange lastPrice)\<rparr>"

text \<open>
  An exchange whose ticker of ETH cannot be read, and a configuration that names BTC and
  ETH in \<open>TRADING_SYMBOLS\<close>, with a blank after the comma.
\<close>

definition eth_ticker_down :: price_exchange where
  "eth_ticker_down =
     \<lparr>px_normalizeContract = gate_normalizeContract,
      px_lastPrice = (\<lambda>contract. if contract = ''ETH_USDT'' then Inl ''timeout'' else Inr 65000)\<rparr>"

definition btc_eth_env :: "price_exchange \<Rightarrow> prices_env" where
  "btc_eth_env exchangeClient =
     \<lparr>env_TRADING_SYMBOLS = Some ''BTC, ETH'', env_getExchangeClient = Inr exchangeClient\<rparr>"

definition doge_request :: prices_request where
  "doge_request = \<lparr>rq_symbols = Some ''DOGE''\<rparr>"

definition default_prices :: "real \<Rightarrow> (string \<times> real) list" where
  "default_prices lastPrice =
     [(''BTC'', lastPrice), (''ETH'', lastPrice), (''SOL'', lastPrice), (''XRP'', lastPrice),
      (''BNB'', lastPrice), (''BCH'', lastPrice)]"



section \<open>Verified properties\<close>

subsection \<open>Request coordinator\<close>

lemma ceilSeconds_ceiling: "ceilSeconds ms = \<lceil>real_of_int ms / 1000\<rceil>"
proof -
  have "\<lfloor>real_of_int (- ms) / real_of_int 1000\<rfloor> = (- ms) div 1000"
    by (rule floor_divide_of_int_eq)
  then show ?thesis
    by (simp add: ceilSeconds_def ceiling_def)
qed

lemma shouldBlockRequest_penalty:
  assumes "now < ipBannedUntil s \<or> now < backoffUntil s \<or> now < circuitBreakerOpenUntil s"
    and "\<not> (0 < ipBannedUntil s \<and> ipBannedUntil s \<le> now)"
  shows "shouldBlockRequest now s =
     (if now < ipBannedUntil s
        then Block (IpBanned (ceilSeconds (ipBannedUntil s - now))) (ipBannedUntil s - now)
      else if now < backoffUntil s
        then Block (Backoff429 (ceilSeconds (backoffUntil s - now))) (backoffUntil s - now)
      else Block (CircuitBreakerOpen (ceilSeconds (circuitBreakerOpenUntil s - now)))
             (circuitBreakerOpenUntil s - now), s)"
  using assms unfolding shouldBlockRequest_def
  by (auto simp: Let_def)

lemma shouldBlockRequest_expired_ban:
  assumes "0 < ipBannedUntil s" "ipBannedUntil s \<le> now"
  shows "shouldBlockRequest now s =
     (NoBlock, s\<lparr>ipBannedUntil := 0, consecutiveFailures := 0, circuitBreakerOpenUntil := 0,
                backoffUntil := 0\<rparr>)"
  using assms unfolding shouldBlockRequest_def
  by (simp add: Let_def)

lemma recordRequestStat_penalties:
  "ipBannedUntil (recordRequestStat endpoint clock s) = ipBannedUntil s"
  "backoffUntil (recordRequestStat endpoint clock s) = backoffUntil s"
  "circuitBreakerOpenUntil (recordRequestStat endpoint clock s) = circuitBreakerOpenUntil s"
  "consecutiveFailures (recordRequestStat endpoint clock s) = consecutiveFailures s"
  by (simp_all add: recordRequestStat_def Let_def)

lemma banned_then_backoff_state:
  "banned_then_backoff =
     \<lparr>maxRequestsPerMinute = 60, minRequestDelay = 100, circuitBreakerThreshold = 5,
      circuitBreakerTimeout = 30000, requestTimestamps = [], lastRequestTime = 0,
      consecutiveFailures = 5, circuitBreakerOpenUntil = 12000, backoffUntil = 61000,
      ipBannedUntil = 12000, requestStats = [], lastStatsLogTime = 0\<rparr>"
  by (simp add: banned_then_backoff_def handle418Ban_def handle429Warning_def
      newRateLimitManager_def BACKOFF_429_DURATION_def)

text \<open>
  C3, as stated, fails: at time 13000 the back-off window of \<open>banned_then_backoff\<close> is
  still open (until 61000), but the ban has run out, \<open>shouldBlockRequest\<close> clears every
  penalty state with it, and the call is admitted without any wait.
\<close>

theorem expired_ban_clears_backoff_counterexample:
  "13000 < backoffUntil banned_then_backoff \<and>
   fst (waitForRateLimit ''/futures/usdt/tickers'' 13000 banned_then_backoff) = Admitted []"
  by (simp add: banned_then_backoff_state waitForRateLimit_def shouldBlockRequest_def
      REQUEST_WINDOW_def rateLimitWait_def minDelayWait_def Let_def)

text \<open>
  C3 (amended): an admission call made while \<open>now < ipBannedUntil\<close>, \<open>now < backoffUntil\<close>
  or \<open>now < circuitBreakerOpenUntil\<close> is rejected, unless a ban that has run out
  (\<open>0 < ipBannedUntil \<le> now\<close>) is still recorded. The error names the first open window
  in the order ban, back-off, circuit breaker and carries its remaining duration in whole
  seconds (rounded up); the call performs no sleep (a rejection carries none), the clock is
  where it was and the state of the coordinator is unchanged. When a ban that has run out
  is still recorded, the call is never rejected: it clears the ban, the back-off window, the
  circuit breaker and the failure count, and is admitted exactly as the same call on the
  cleared state would be, whatever back-off or circuit-breaker window was still open.
\<close>

theorem coordinator_rejects_in_penalty_window:
  "((now < ipBannedUntil s \<or> now < backoffUntil s \<or> now < circuitBreakerOpenUntil s) \<and>
    \<not> (0 < ipBannedUntil s \<and> ipBannedUntil s \<le> now) \<longrightarrow>
      waitForRateLimit endpoint now s =
        (Rejected
           (if now < ipBannedUntil s
              then IpBanned \<lceil>real_of_int (ipBannedUntil s - now) / 1000\<rceil>
            else if now < backoffUntil s
              then Backoff429 \<lceil>real_of_int (backoffUntil s - now) / 1000\<rceil>
            else CircuitBreakerOpen \<lceil>real_of_int (circuitBreakerOpenUntil s - now) / 1000\<rceil>),
         s, now))
   \<and> (0 < ipBannedUntil s \<and> ipBannedUntil s \<le> now \<longrightarrow>
        (\<exists>sleeps s' clock.
           waitForRateLimit endpoint now s = (Admitted sleeps, s', clock) \<and>
           ipBannedUntil s' = 0 \<and> backoffUntil s' = 0 \<and> circuitBreakerOpenUntil s' = 0 \<and>
           consecutiveFailures s' = 0 \<and>
           waitForRateLimit endpoint now
             (s\<lparr>ipBannedUntil := 0, consecutiveFailures := 0, circuitBreakerOpenUntil := 0,
                backoffUntil := 0\<rparr>) = (Admitted sleeps, s', clock)))"
proof -
  have rejected: "(now < ipBannedUntil s \<or> now < backoffUntil s \<or> now < circuitBreakerOpenUntil s) \<and>
    \<not> (0 < ipBannedUntil s \<and> ipBannedUntil s \<le> now) \<longrightarrow>
      waitForRateLimit endpoint now s =
        (Rejected
           (if now < ipBannedUntil s
              then IpBanned \<lceil>real_of_int (ipBannedUntil s - now) / 1000\<rceil>
            else if now < backoffUntil s
              then Backoff429 \<lceil>real_of_int (backoffUntil s - now) / 1000\<rceil>
            else CircuitBreakerOpen \<lceil>real_of_int (circuitBreakerOpenUntil s - now) / 1000\<rceil>),
         s, now)"
  proof
    assume a: "(now < ipBannedUntil s \<or> now < backoffUntil s \<or> now < circuitBreakerOpenUntil s) \<and>
      \<not> (0 < ipBannedUntil s \<and> ipBannedUntil s \<le> now)"
    then have "shouldBlockRequest now s =
     (if now < ipBannedUntil s
        then Block (IpBanned (ceilSeconds (ipBannedUntil s - now))) (ipBannedUntil s - now)
      else if now < backoffUntil s
        then Block (Backoff429 (ceilSeconds (backoffUntil s - now))) (backoffUntil s - now)
      else Block (CircuitBreakerOpen (ceilSeconds (circuitBreakerOpenUntil s - now)))
             (circuitBreakerOpenUntil s - now), s)"
      using shouldBlockRequest_penalty by blast
    then show "waitForRateLimit endpoint now s =
        (Rejected
           (if now < ipBannedUntil s
              then IpBanned \<lceil>real_of_int (ipBannedUntil s - now) / 1000\<rceil>
            else if now < backoffUntil s
              then Backoff429 \<lceil>real_of_int (backoffUntil s - now) / 1000\<rceil>
            else CircuitBreakerOpen \<lceil>real_of_int (circuitBreakerOpenUntil s - now) / 1000\<rceil>),
         s, now)"
      by (simp add: waitForRateLimit_def ceilSeconds_ceiling)
  qed
  have admitted: "0 < ipBannedUntil s \<and> ipBannedUntil s \<le> now \<longrightarrow>
        (\<exists>sleeps s' clock.
           waitForRateLimit endpoint now s = (Admitted sleeps, s', clock) \<and>
           ipBannedUntil s' = 0 \<and> backoffUntil s' = 0 \<and> circuitBreakerOpenUntil s' = 0 \<and>
           consecutiveFailures s' = 0 \<and>
           waitForRateLimit endpoint now
             (s\<lparr>ipBannedUntil := 0, consecutiveFailures := 0, circuitBreakerOpenUntil := 0,
                backoffUntil := 0\<rparr>) = (Admitted sleeps, s', clock))"
  proof
    assume a: "0 < ipBannedUntil s \<and> ipBannedUntil s \<le> now"
    then have now: "0 < now" by simp
    have cleared: "shouldBlockRequest now
        (s\<lparr>ipBannedUntil := 0, consecutiveFailures := 0, circuitBreakerOpenUntil := 0,
           backoffUntil := 0\<rparr>) =
      (NoBlock, s\<lparr>ipBannedUntil := 0, consecutiveFailures := 0, circuitBreakerOpenUntil := 0,
                 backoffUntil := 0\<rparr>)"
      using now by (simp add: shouldBlockRequest_def Let_def)
    show "\<exists>sleeps s' clock.
           waitForRateLimit endpoint now s = (Admitted sleeps, s', clock) \<and>
           ipBannedUntil s' = 0 \<and> backoffUntil s' = 0 \<and> circuitBreakerOpenUntil s' = 0 \<and>
           consecutiveFailures s' = 0 \<and>
           waitForRateLimit endpoint now
             (s\<lparr>ipBannedUntil := 0, consecutiveFailures := 0, circuitBreakerOpenUntil := 0,
                backoffUntil := 0\<rparr>) = (Admitted sleeps, s', clock)"
      using a cleared
      by (simp add: waitForRateLimit_def shouldBlockRequest_expired_ban Let_def
          recordRequestStat_penalties)
  qed
  from rejected admitted show ?thesis by blast
qed

theorem coordinator_rejects_in_penalty_window_witness:
  "5000 < ipBannedUntil banned_then_backoff \<and>
   waitForRateLimit ''/futures/usdt/tickers'' 5000 banned_then_backoff =
     (Rejected (IpBanned 7), banned_then_backoff, 5000) \<and>
   13000 < backoffUntil banned_then_backoff \<and>
   fst (waitForRateLimit ''/futures/usdt/tickers'' 13000 banned_then_backoff) = Admitted [] \<and>
   backoffUntil (fst (snd (waitForRateLimit ''/futures/usdt/tickers'' 13000 banned_then_backoff))) = 0"
proof -
  have early: "waitForRateLimit ''/futures/usdt/tickers'' 5000 banned_then_backoff =
     (Rejected (IpBanned 7), banned_then_backoff, 5000)"
    using coordinator_rejects_in_penalty_window
          [of 5000 banned_then_backoff "''/futures/usdt/tickers''"]
    by (simp add: banned_then_backoff_state)
  have late: "fst (waitForRateLimit ''/futures/usdt/tickers'' 13000 banned_then_backoff) = Admitted [] \<and>
   backoffUntil (fst (snd (waitForRateLimit ''/futures/usdt/tickers'' 13000 banned_then_backoff))) = 0"
    using coordinator_rejects_in_penalty_window
          [of 13000 banned_then_backoff "''/futures/usdt/tickers''"]
    by (simp add: banned_then_backoff_state waitForRateLimit_def shouldBlockRequest_def
        REQUEST_WINDOW_def rateLimitWait_def minDelayWait_def Let_def recordRequestStat_def)
  have "5000 < ipBannedUntil banned_then_backoff" "13000 < backoffUntil banned_then_backoff"
    by (simp_all add: banned_then_backoff_state)
  with early late show ?thesis by blast
qed

lemma shouldBlockRequest_free:
  assumes "ipBannedUntil s \<le> now" "backoffUntil s \<le> now" "circuitBreakerOpenUntil s \<le> now"
  shows "\<exists>s'. shouldBlockRequest now s = (NoBlock, s') \<and>
     requestTimestamps s' = requestTimestamps s \<and>
     maxRequestsPerMinute s' = maxRequestsPerMinute s \<and>
     lastRequestTime s' = lastRequestTime s \<and> minRequestDelay s' = minRequestDelay s"
  using assms unfolding shouldBlockRequest_def
  by (auto simp: Let_def)

lemma recordRequestStat_ring:
  "requestTimestamps (recordRequestStat endpoint clock s) = requestTimestamps s"
  "lastRequestTime (recordRequestStat endpoint clock s) = lastRequestTime s"
  by (simp_all add: recordRequestStat_def Let_def)

text \<open>
  C5, as stated, fails: no penalty window is open, and the ring of \<open>crowded_ring\<close> holds
  two timestamps of the last 60 seconds at a limit of two. The oldest of them, 29000, is
  60 seconds and 100 ms old at time 89100, but the call sleeps 59100 ms and then 400 ms more
  for the minimum spacing (measured with the clock read before the first sleep), and
  records the request at 89500.
\<close>

theorem min_spacing_delays_recording_counterexample:
  "ipBannedUntil crowded_ring = 0 \<and> backoffUntil crowded_ring = 0 \<and>
   circuitBreakerOpenUntil crowded_ring = 0 \<and>
   filter (\<lambda>t. 30000 - t < 60000) (requestTimestamps crowded_ring) = [29000, 29900] \<and>
   maxRequestsPerMinute crowded_ring = 2 \<and>
   fst (waitForRateLimit ''/futures/usdt/tickers'' 30000 crowded_ring) = Admitted [59100, 400] \<and>
   requestTimestamps (fst (snd (waitForRateLimit ''/futures/usdt/tickers'' 30000 crowded_ring)))
     = [29000, 29900, 89500] \<and>
   snd (snd (waitForRateLimit ''/futures/usdt/tickers'' 30000 crowded_ring)) = 89500 \<and>
   (89500::int) \<noteq> 29000 + 60000 + 100"
  by (simp add: crowded_ring_def newRateLimitManager_def waitForRateLimit_def
      shouldBlockRequest_def REQUEST_WINDOW_def rateLimitWait_def minDelayWait_def Let_def
      recordRequestStat_def)

text \<open>
  C5 (amended): when no penalty window is open and the ring, after the eviction of the
  timestamps of 60 seconds ago and older, holds at least one and at least
  \<open>maxRequestsPerMinute\<close> entries, the first sleep of the call lasts until the first
  (oldest) remaining timestamp is 60 seconds and 100 ms old: it is
  \<open>oldest + 60000 + 100 - now\<close>, more than 100 ms. When the last request lies less
  than \<open>minRequestDelay\<close> before \<open>now\<close> (the clock on entry), a second sleep of
  \<open>minRequestDelay - (now - lastRequestTime)\<close> follows; there is no other sleep. The
  request is recorded at the end of the ring after the sleeps, with the clock of that
  moment, which also becomes \<open>lastRequestTime\<close>. In a ring in ascending order the first
  remaining timestamp is the least one.
\<close>

theorem admission_waits_for_oldest:
  assumes free: "ipBannedUntil s \<le> now" "backoffUntil s \<le> now" "circuitBreakerOpenUntil s \<le> now"
    and ring: "filter (\<lambda>t. now - t < 60000) (requestTimestamps s) = oldest # later"
    and full: "maxRequestsPerMinute s \<le> int (length (oldest # later))"
    and spacing: "spacing = (if now - lastRequestTime s < minRequestDelay s
                              then [minRequestDelay s - (now - lastRequestTime s)] else [])"
  shows "\<exists>s'. waitForRateLimit endpoint now s =
           (Admitted ((oldest + 60000 + 100 - now) # spacing), s',
            oldest + 60000 + 100 + sum_list spacing)
         \<and> requestTimestamps s' = oldest # later @ [oldest + 60000 + 100 + sum_list spacing]
         \<and> lastRequestTime s' = oldest + 60000 + 100 + sum_list spacing
         \<and> 100 < oldest + 60000 + 100 - now
         \<and> (sorted (requestTimestamps s) \<longrightarrow> (\<forall>t \<in> set later. oldest \<le> t))"
proof -
  from shouldBlockRequest_free[OF free] obtain s1 where
    s1: "shouldBlockRequest now s = (NoBlock, s1)"
      "requestTimestamps s1 = requestTimestamps s"
      "maxRequestsPerMinute s1 = maxRequestsPerMinute s"
      "lastRequestTime s1 = lastRequestTime s" "minRequestDelay s1 = minRequestDelay s"
    by blast
  have "oldest \<in> set (filter (\<lambda>t. now - t < 60000) (requestTimestamps s))"
    by (simp add: ring)
  then have young: "now - oldest < 60000" by simp
  then have wait: "rateLimitWait now (maxRequestsPerMinute s) (oldest # later) =
      [oldest + 60000 + 100 - now]"
    using full by (simp add: rateLimitWait_def REQUEST_WINDOW_def Let_def)
  have ascending: "sorted (requestTimestamps s) \<longrightarrow> (\<forall>t \<in> set later. oldest \<le> t)"
  proof
    assume "sorted (requestTimestamps s)"
    then have "sorted (filter (\<lambda>t. now - t < 60000) (requestTimestamps s))"
      by (rule sorted_wrt_filter)
    then show "\<forall>t \<in> set later. oldest \<le> t" by (simp add: ring)
  qed
  have delay: "minDelayWait now (lastRequestTime s) (minRequestDelay s) = spacing"
    by (simp add: minDelayWait_def spacing Let_def)
  show ?thesis
    using s1 wait young ascending ring delay
    by (simp add: waitForRateLimit_def REQUEST_WINDOW_def Let_def recordRequestStat_ring)
qed

theorem admission_waits_for_oldest_witness:
  "fst (waitForRateLimit ''/futures/usdt/tickers'' 30000 full_ring) = Admitted [31100] \<and>
   snd (snd (waitForRateLimit ''/futures/usdt/tickers'' 30000 full_ring)) = 61100 \<and>
   fst (waitForRateLimit ''/futures/usdt/tickers'' 30000 crowded_ring) = Admitted [59100, 400] \<and>
   snd (snd (waitForRateLimit ''/futures/usdt/tickers'' 30000 crowded_ring)) = 89500"
proof -
  have roomy: "fst (waitForRateLimit ''/futures/usdt/tickers'' 30000 full_ring) = Admitted [31100] \<and>
   snd (snd (waitForRateLimit ''/futures/usdt/tickers'' 30000 full_ring)) = 61100"
    using admission_waits_for_oldest
      [of full_ring 30000 1000 "[2000]" "[]" "''/futures/usdt/tickers''"]
    by (auto simp add: full_ring_def newRateLimitManager_def)
  have crowded: "fst (waitForRateLimit ''/futures/usdt/tickers'' 30000 crowded_ring) = Admitted [59100, 400] \<and>
   snd (snd (waitForRateLimit ''/futures/usdt/tickers'' 30000 crowded_ring)) = 89500"
    using admission_waits_for_oldest
      [of crowded_ring 30000 29000 "[29900]" "[400]" "''/futures/usdt/tickers''"]
    by (auto simp add: crowded_ring_def newRateLimitManager_def)
  from roomy crowded show ?thesis by blast
qed

subsection \<open>Order size in \<open>placeOrder\<close>\<close>

lemma buildOrder_size:
  assumes "po_getContractInfo api = Inr info" and "buildOrder api params = Inr order"
  shows "fo_size order = adjustSize info (op_size params)"
  using assms
  by (auto simp: buildOrder_def Let_def split: option.splits sum.splits if_splits)

lemma placeOrder_sends_built:
  "placeOrder api params = Inr (order, orderId) \<Longrightarrow> buildOrder api params = Inr order"
  by (auto simp: placeOrder_def split: sum.splits)

text \<open>
  C7, as stated, fails: the contract allows 20,000,000 contracts, the request is for
  30,000,000, and the order goes out with 10,000,000 (the cap \<open>API_MAX_SIZE\<close>), not with
  the contract's \<open>orderSizeMax\<close>.
\<close>

theorem order_size_capped_by_api_counterexample:
  "orderSizeMax big_contract < \<bar>op_size (market_order 30000000)\<bar> \<and>
   placeOrder (accepting_exchange big_contract) (market_order 30000000) =
     Inr (\<lparr>fo_contract = ''BTC_USDT'', fo_size = 10000000, fo_price = 0, fo_tif = ''ioc'',
           fo_isReduceOnly = False\<rparr>, ''1001'')"
  by (simp add: placeOrder_def buildOrder_def adjustSize_def big_contract_def
      accepting_exchange_def market_order_def API_MAX_SIZE_def formatPrice_def Let_def)

text \<open>
  C7 (amended): for an order \<open>placeOrder\<close> builds from a non-zero size, with positive
  limits and \<open>maxSize\<close> the smaller of the contract's \<open>orderSizeMax\<close> and 10,000,000: a
  size above \<open>maxSize\<close> in absolute value goes out as \<open>maxSize\<close>; otherwise a size below
  \<open>orderSizeMin\<close> in absolute value goes out as \<open>orderSizeMin\<close>; otherwise it goes out
  as it is; and in every case the order has the sign of the request.
\<close>

theorem placeOrder_clamps_size:
  assumes info: "po_getContractInfo api = Inr info"
    and order: "buildOrder api params = Inr order"
    and limits: "0 < orderSizeMin info" "0 < orderSizeMax info"
    and nonzero: "op_size params \<noteq> 0"
    and maxSize: "maxSize = min (orderSizeMax info) 10000000"
  shows "(maxSize < \<bar>op_size params\<bar> \<longrightarrow> \<bar>fo_size order\<bar> = maxSize)
       \<and> (\<bar>op_size params\<bar> < orderSizeMin info \<and> \<bar>op_size params\<bar> \<le> maxSize
            \<longrightarrow> \<bar>fo_size order\<bar> = orderSizeMin info)
       \<and> (orderSizeMin info \<le> \<bar>op_size params\<bar> \<and> \<bar>op_size params\<bar> \<le> maxSize
            \<longrightarrow> fo_size order = op_size params)
       \<and> (0 < fo_size order \<longleftrightarrow> 0 < op_size params)"
  using limits nonzero maxSize
  unfolding buildOrder_size[OF info order] adjustSize_def API_MAX_SIZE_def
  by (auto simp: Let_def)

theorem placeOrder_clamps_size_witness:
  "placeOrder (accepting_exchange big_contract) (market_order (- 0.5)) =
     Inr (\<lparr>fo_contract = ''BTC_USDT'', fo_size = - 1, fo_price = 0, fo_tif = ''ioc'',
           fo_isReduceOnly = False\<rparr>, ''1001'')"
  using placeOrder_clamps_size
    [of "accepting_exchange big_contract" big_contract "market_order (- 0.5)"
        "\<lparr>fo_contract = ''BTC_USDT'', fo_size = - 1, fo_price = 0, fo_tif = ''ioc'',
          fo_isReduceOnly = False\<rparr>" 10000000]
  by (simp add: placeOrder_def buildOrder_def adjustSize_def big_contract_def
      accepting_exchange_def market_order_def API_MAX_SIZE_def formatPrice_def Let_def)

subsection \<open>Trigger prices in \<open>setPositionStopLoss\<close>\<close>

lemma deviation_less: "0 < (mark::real) \<Longrightarrow> (\<bar>p - mark\<bar> / mark < 0.003) = (\<bar>p - mark\<bar> < 0.003 * mark)"
  by (simp add: pos_divide_less_eq)

lemma adjustStopLoss_safe:
  assumes "0 < mark"
  shows "safeTrigger StopLossTrigger side mark p (adjustStopLoss side mark p)"
proof (cases side)
  case Long
  show ?thesis
    using assms unfolding Long adjustStopLoss_def safeTrigger_def alreadyTriggered_def Let_def
      deviation_less[OF assms]
    by (auto simp: algebra_simps)
next
  case Short
  show ?thesis
    using assms unfolding Short adjustStopLoss_def safeTrigger_def alreadyTriggered_def Let_def
      deviation_less[OF assms]
    by (auto simp: algebra_simps)
qed

lemma adjustTakeProfit_safe:
  assumes "0 < mark"
  shows "safeTrigger TakeProfitTrigger side mark p (adjustTakeProfit side mark p)"
proof (cases side)
  case Long
  show ?thesis
    using assms unfolding Long adjustTakeProfit_def safeTrigger_def alreadyTriggered_def Let_def
      deviation_less[OF assms]
    by (auto simp: algebra_simps)
next
  case Short
  show ?thesis
    using assms unfolding Short adjustTakeProfit_def safeTrigger_def alreadyTriggered_def Let_def
      deviation_less[OF assms]
    by (auto simp: algebra_simps)
qed

lemma createTrigger_calls:
  assumes "CreatePriceTriggeredOrder order \<in> set (snd (createTrigger create built))"
  shows "\<exists>a. built = Inr (a, order)"
  using assms by (auto simp: createTrigger_def split: sum.splits prod.splits)

lemma stopLossBlock_calls:
  assumes "CreatePriceTriggeredOrder order \<in> set (snd (stopLossBlock api contract side closeSize stopLoss))"
  shows "\<exists>p mark. stopLoss = Some p \<and> 0 < p \<and> sl_markPriceForStopLoss api = Inr mark \<and> 0 < mark \<and>
           to_contract order = contract \<and> to_size order = closeSize \<and>
           to_rule order = triggerRule StopLossTrigger side \<and>
           to_price order = formatPriceByTickSize api (adjustStopLoss side mark p)"
proof -
  from assms obtain p where p: "stopLoss = Some p" "0 < p"
    and "CreatePriceTriggeredOrder order
           \<in> set (snd (createTrigger (sl_createStopLoss api) (stopLossOrder api contract side closeSize p)))"
    by (auto simp: stopLossBlock_def split: option.splits if_splits)
  then obtain a where "stopLossOrder api contract side closeSize p = Inr (a, order)"
    using createTrigger_calls by blast
  then show ?thesis using p
    by (auto simp: stopLossOrder_def triggerRule_def Let_def split: sum.splits if_splits)
qed

lemma takeProfitBlock_calls:
  assumes "CreatePriceTriggeredOrder order \<in> set (snd (takeProfitBlock api contract side closeSize takeProfit))"
  shows "\<exists>p mark. takeProfit = Some p \<and> 0 < p \<and> sl_markPriceForTakeProfit api = Inr mark \<and> 0 < mark \<and>
           to_contract order = contract \<and> to_size order = closeSize \<and>
           to_rule order = triggerRule TakeProfitTrigger side \<and>
           to_price order = formatPriceByTickSize api (adjustTakeProfit side mark p)"
proof -
  from assms obtain p where p: "takeProfit = Some p" "0 < p"
    and "CreatePriceTriggeredOrder order
           \<in> set (snd (createTrigger (sl_createTakeProfit api) (takeProfitOrder api contract side closeSize p)))"
    by (auto simp: takeProfitBlock_def split: option.splits if_splits)
  then obtain a where "takeProfitOrder api contract side closeSize p = Inr (a, order)"
    using createTrigger_calls by blast
  then show ?thesis using p
    by (auto simp: takeProfitOrder_def triggerRule_def Let_def split: sum.splits if_splits)
qed

lemma heldPosition_found:
  "heldPosition ps contract = Some position \<longleftrightarrow>
     find (\<lambda>q. pi_contract q = contract) ps = Some position \<and> pi_size position \<noteq> 0"
  by (auto simp: heldPosition_def split: option.splits if_splits)

lemma setPositionStopLoss_calls:
  assumes "CreatePriceTriggeredOrder order \<in> set (snd (setPositionStopLoss api contract stopLoss takeProfit))"
  shows "\<exists>ps position. sl_getPositions api = Inr ps \<and> heldPosition ps contract = Some position \<and>
     (CreatePriceTriggeredOrder order
        \<in> set (snd (stopLossBlock api contract (positionSide position) (positionCloseSize position) stopLoss))
      \<or> CreatePriceTriggeredOrder order
        \<in> set (snd (takeProfitBlock api contract (positionSide position) (positionCloseSize position) takeProfit)))"
  using assms
  by (auto simp: setPositionStopLoss_def failure_def Let_def
      split: sum.splits option.splits prod.splits block_outcome.splits if_splits)

lemma stopLoss_is_second_call:
  assumes ps: "sl_getPositions api = Inr ps"
    and held: "heldPosition ps contract = Some position"
    and sl: "stopLoss = Some p" "0 < p"
    and mark: "sl_markPriceForStopLoss api = Inr mark" "0 < mark"
  shows "\<exists>rest. snd (setPositionStopLoss api contract stopLoss takeProfit) =
     CancelPriceTriggeredOrderList contract
     # CreatePriceTriggeredOrder
         \<lparr>to_contract = contract, to_size = positionCloseSize position,
          to_price = formatPriceByTickSize api (adjustStopLoss (positionSide position) mark p),
          to_rule = triggerRule StopLossTrigger (positionSide position)\<rparr>
     # rest"
  using assms
  by (auto simp: setPositionStopLoss_def stopLossBlock_def stopLossOrder_def createTrigger_def
      triggerRule_def failure_def Let_def
      split: sum.splits option.splits prod.splits block_outcome.splits)

text \<open>
  C6: every trigger order that \<open>setPositionStopLoss\<close> hands to the exchange is for the
  position of the contract (the first one listed for it, of a size other than zero), is
  long when that size is positive and short when it is negative, closes the rounded size of
  the position, stems from a positive stop-loss or take-profit price of the call and a
  positive mark price read just before, and carries the tick-size rendering of a price that
  is safe for the request on that side: 0.5% from the mark on the valid side when the
  request was on the triggered side, exactly 0.3% from the mark on the valid side when the
  request was closer than 0.3%, and the request itself otherwise. And with such a position,
  a positive stop-loss price and a positive mark price, the stop-loss order is placed,
  right after the cancellation of the old trigger orders, at such a price. (Numbers are exact
  reals here; the rendering to the tick size comes after the shift.)
\<close>

theorem trigger_price_shifted_before_placement:
  "(CreatePriceTriggeredOrder order \<in> set (snd (setPositionStopLoss api contract stopLoss takeProfit))
     \<longrightarrow>
     (\<exists>ps position side kind p mark a.
        sl_getPositions api = Inr ps \<and>
        find (\<lambda>q. pi_contract q = contract) ps = Some position \<and> pi_size position \<noteq> 0 \<and>
        side = (if 0 < pi_size position then Long else Short) \<and>
        (kind = StopLossTrigger \<and> stopLoss = Some p \<and> sl_markPriceForStopLoss api = Inr mark
         \<or> kind = TakeProfitTrigger \<and> takeProfit = Some p \<and> sl_markPriceForTakeProfit api = Inr mark) \<and>
        0 < p \<and> 0 < mark \<and>
        to_contract order = contract \<and>
        to_size order = \<bar>\<lfloor>pi_size position + 1 / 2\<rfloor>\<bar> \<and>
        to_rule order = triggerRule kind side \<and>
        to_price order = formatPriceByTickSize api a \<and>
        safeTrigger kind side mark p a))
   \<and> (sl_getPositions api = Inr listed \<and>
       find (\<lambda>q. pi_contract q = contract) listed = Some held \<and> pi_size held \<noteq> 0 \<and>
       stopLoss = Some requested \<and> 0 < requested \<and>
       sl_markPriceForStopLoss api = Inr current \<and> 0 < current \<longrightarrow>
       (\<exists>shifted rest.
          snd (setPositionStopLoss api contract stopLoss takeProfit) =
            CancelPriceTriggeredOrderList contract
            # CreatePriceTriggeredOrder
                \<lparr>to_contract = contract, to_size = \<bar>\<lfloor>pi_size held + 1 / 2\<rfloor>\<bar>,
                 to_price = formatPriceByTickSize api shifted,
                 to_rule = triggerRule StopLossTrigger (if 0 < pi_size held then Long else Short)\<rparr>
            # rest \<and>
          safeTrigger StopLossTrigger (if 0 < pi_size held then Long else Short) current requested
            shifted))"
proof -
  have every: "CreatePriceTriggeredOrder order \<in> set (snd (setPositionStopLoss api contract stopLoss takeProfit))
     \<longrightarrow>
     (\<exists>ps position side kind p mark a.
        sl_getPositions api = Inr ps \<and>
        find (\<lambda>q. pi_contract q = contract) ps = Some position \<and> pi_size position \<noteq> 0 \<and>
        side = (if 0 < pi_size position then Long else Short) \<and>
        (kind = StopLossTrigger \<and> stopLoss = Some p \<and> sl_markPriceForStopLoss api = Inr mark
         \<or> kind = TakeProfitTrigger \<and> takeProfit = Some p \<and> sl_markPriceForTakeProfit api = Inr mark) \<and>
        0 < p \<and> 0 < mark \<and>
        to_contract order = contract \<and>
        to_size order = \<bar>\<lfloor>pi_size position + 1 / 2\<rfloor>\<bar> \<and>
        to_rule order = triggerRule kind side \<and>
        to_price order = formatPriceByTickSize api a \<and>
        safeTrigger kind side mark p a)"
  proof
    assume placed: "CreatePriceTriggeredOrder order
      \<in> set (snd (setPositionStopLoss api contract stopLoss takeProfit))"
    from setPositionStopLoss_calls[OF placed] obtain ps position where
      ps: "sl_getPositions api = Inr ps" and held: "heldPosition ps contract = Some position"
      and blocks: "CreatePriceTriggeredOrder order
          \<in> set (snd (stopLossBlock api contract (positionSide position) (positionCloseSize position) stopLoss))
        \<or> CreatePriceTriggeredOrder order
          \<in> set (snd (takeProfitBlock api contract (positionSide position) (positionCloseSize position) takeProfit))"
      by blast
    from held have found: "find (\<lambda>q. pi_contract q = contract) ps = Some position"
      "pi_size position \<noteq> 0"
      by (simp_all add: heldPosition_found)
    have side: "positionSide position = (if 0 < pi_size position then Long else Short)"
      by (simp add: positionSide_def)
    have closeSize: "positionCloseSize position = \<bar>\<lfloor>pi_size position + 1 / 2\<rfloor>\<bar>"
      by (simp add: positionCloseSize_def js_round_def)
    from blocks show "\<exists>ps position side kind p mark a.
        sl_getPositions api = Inr ps \<and>
        find (\<lambda>q. pi_contract q = contract) ps = Some position \<and> pi_size position \<noteq> 0 \<and>
        side = (if 0 < pi_size position then Long else Short) \<and>
        (kind = StopLossTrigger \<and> stopLoss = Some p \<and> sl_markPriceForStopLoss api = Inr mark
         \<or> kind = TakeProfitTrigger \<and> takeProfit = Some p \<and> sl_markPriceForTakeProfit api = Inr mark) \<and>
        0 < p \<and> 0 < mark \<and>
        to_contract order = contract \<and>
        to_size order = \<bar>\<lfloor>pi_size position + 1 / 2\<rfloor>\<bar> \<and>
        to_rule order = triggerRule kind side \<and>
        to_price order = formatPriceByTickSize api a \<and>
        safeTrigger kind side mark p a"
    proof
      assume "CreatePriceTriggeredOrder order
          \<in> set (snd (stopLossBlock api contract (positionSide position) (positionCloseSize position) stopLoss))"
      from stopLossBlock_calls[OF this] obtain p mark where
        "stopLoss = Some p" "0 < p" "sl_markPriceForStopLoss api = Inr mark" "0 < mark"
        "to_contract order = contract" "to_size order = positionCloseSize position"
        "to_rule order = triggerRule StopLossTrigger (positionSide position)"
        "to_price order = formatPriceByTickSize api (adjustStopLoss (positionSide position) mark p)"
        by blast
      with ps found adjustStopLoss_safe[of mark "positionSide position" p] show ?thesis
        unfolding side closeSize by blast
    next
      assume "CreatePriceTriggeredOrder order
          \<in> set (snd (takeProfitBlock api contract (positionSide position) (positionCloseSize position) takeProfit))"
      from takeProfitBlock_calls[OF this] obtain p mark where
        "takeProfit = Some p" "0 < p" "sl_markPriceForTakeProfit api = Inr mark" "0 < mark"
        "to_contract order = contract" "to_size order = positionCloseSize position"
        "to_rule order = triggerRule TakeProfitTrigger (positionSide position)"
        "to_price order = formatPriceByTickSize api (adjustTakeProfit (positionSide position) mark p)"
        by blast
      with ps found adjustTakeProfit_safe[of mark "positionSide position" p] show ?thesis
        unfolding side closeSize by blast
    qed
  qed
  have first: "sl_getPositions api = Inr listed \<and>
       find (\<lambda>q. pi_contract q = contract) listed = Some held \<and> pi_size held \<noteq> 0 \<and>
       stopLoss = Some requested \<and> 0 < requested \<and>
       sl_markPriceForStopLoss api = Inr current \<and> 0 < current \<longrightarrow>
       (\<exists>shifted rest.
          snd (setPositionStopLoss api contract stopLoss takeProfit) =
            CancelPriceTriggeredOrderList contract
            # CreatePriceTriggeredOrder
                \<lparr>to_contract = contract, to_size = \<bar>\<lfloor>pi_size held + 1 / 2\<rfloor>\<bar>,
                 to_price = formatPriceByTickSize api shifted,
                 to_rule = triggerRule StopLossTrigger (if 0 < pi_size held then Long else Short)\<rparr>
            # rest \<and>
          safeTrigger StopLossTrigger (if 0 < pi_size held then Long else Short) current requested
            shifted)"
  proof
    assume a: "sl_getPositions api = Inr listed \<and>
       find (\<lambda>q. pi_contract q = contract) listed = Some held \<and> pi_size held \<noteq> 0 \<and>
       stopLoss = Some requested \<and> 0 < requested \<and>
       sl_markPriceForStopLoss api = Inr current \<and> 0 < current"
    then have h: "heldPosition listed contract = Some held"
      by (simp add: heldPosition_found)
    from a h stopLoss_is_second_call[of api listed contract held stopLoss requested current takeProfit]
    obtain rest where "snd (setPositionStopLoss api contract stopLoss takeProfit) =
     CancelPriceTriggeredOrderList contract
     # CreatePriceTriggeredOrder
         \<lparr>to_contract = contract, to_size = positionCloseSize held,
          to_price = formatPriceByTickSize api (adjustStopLoss (positionSide held) current requested),
          to_rule = triggerRule StopLossTrigger (positionSide held)\<rparr>
     # rest"
      by blast
    moreover have "safeTrigger StopLossTrigger (positionSide held) current requested
        (adjustStopLoss (positionSide held) current requested)"
      using a adjustStopLoss_safe by blast
    ultimately show "\<exists>shifted rest.
          snd (setPositionStopLoss api contract stopLoss takeProfit) =
            CancelPriceTriggeredOrderList contract
            # CreatePriceTriggeredOrder
                \<lparr>to_contract = contract, to_size = \<bar>\<lfloor>pi_size held + 1 / 2\<rfloor>\<bar>,
                 to_price = formatPriceByTickSize api shifted,
                 to_rule = triggerRule StopLossTrigger (if 0 < pi_size held then Long else Short)\<rparr>
            # rest \<and>
          safeTrigger StopLossTrigger (if 0 < pi_size held then Long else Short) current requested
            shifted"
      by (auto simp: positionSide_def positionCloseSize_def js_round_def)
  qed
  from every first show ?thesis by blast
qed

theorem trigger_price_shifted_before_placement_witness:
  "setPositionStopLoss (long_btc (\<lambda>order. Inr (Some ''7002''))) ''BTC_USDT'' (Some 99.9) (Some 99) =
     (\<lparr>success = True, stopLossOrderId = Some ''7001'', takeProfitOrderId = Some ''7002'',
       message = StopsSet (Some 99.7) (Some 100.5)\<rparr>,
      [CancelPriceTriggeredOrderList ''BTC_USDT'',
       CreatePriceTriggeredOrder
         \<lparr>to_contract = ''BTC_USDT'', to_size = 3, to_price = ''99.7'', to_rule = 2\<rparr>,
       CreatePriceTriggeredOrder
         \<lparr>to_contract = ''BTC_USDT'', to_size = 3, to_price = ''100.5'', to_rule = 1\<rparr>]) \<and>
   setPositionStopLoss short_btc ''BTC_USDT'' (Some 99) (Some 99.9) =
     (\<lparr>success = True, stopLossOrderId = Some ''7003'', takeProfitOrderId = Some ''7004'',
       message = StopsSet (Some 100.5) (Some 99.7)\<rparr>,
      [CancelPriceTriggeredOrderList ''BTC_USDT'',
       CreatePriceTriggeredOrder
         \<lparr>to_contract = ''BTC_USDT'', to_size = 3, to_price = ''100.5'', to_rule = 1\<rparr>,
       CreatePriceTriggeredOrder
         \<lparr>to_contract = ''BTC_USDT'', to_size = 3, to_price = ''99.7'', to_rule = 2\<rparr>]) \<and>
   safeTrigger StopLossTrigger Short 100 99 100.5 \<and>
   safeTrigger TakeProfitTrigger Short 100 99.9 99.7 \<and>
   \<not> safeTrigger StopLossTrigger Short 100 99 99.5"
proof -
  have long: "setPositionStopLoss (long_btc (\<lambda>order. Inr (Some ''7002''))) ''BTC_USDT'' (Some 99.9) (Some 99) =
     (\<lparr>success = True, stopLossOrderId = Some ''7001'', takeProfitOrderId = Some ''7002'',
       message = StopsSet (Some 99.7) (Some 100.5)\<rparr>,
      [CancelPriceTriggeredOrderList ''BTC_USDT'',
       CreatePriceTriggeredOrder
         \<lparr>to_contract = ''BTC_USDT'', to_size = 3, to_price = ''99.7'', to_rule = 2\<rparr>,
       CreatePriceTriggeredOrder
         \<lparr>to_contract = ''BTC_USDT'', to_size = 3, to_price = ''100.5'', to_rule = 1\<rparr>])"
    using trigger_price_shifted_before_placement
      [of "\<lparr>to_contract = ''BTC_USDT'', to_size = 3, to_price = ''99.7'', to_rule = 2\<rparr>"
          "long_btc (\<lambda>order. Inr (Some ''7002''))" "''BTC_USDT''" "Some 99.9" "Some 99"]
    by (simp add: setPositionStopLoss_def long_btc_def heldPosition_def positionSide_def
        positionCloseSize_def stopLossBlock_def takeProfitBlock_def createTrigger_def
        stopLossOrder_def takeProfitOrder_def adjustStopLoss_def adjustTakeProfit_def
        formatPriceByTickSize_def toFixed_table_def js_round_def createdId_def priceAfter_def
        truthyNumber_def Let_def)
  have short: "setPositionStopLoss short_btc ''BTC_USDT'' (Some 99) (Some 99.9) =
     (\<lparr>success = True, stopLossOrderId = Some ''7003'', takeProfitOrderId = Some ''7004'',
       message = StopsSet (Some 100.5) (Some 99.7)\<rparr>,
      [CancelPriceTriggeredOrderList ''BTC_USDT'',
       CreatePriceTriggeredOrder
         \<lparr>to_contract = ''BTC_USDT'', to_size = 3, to_price = ''100.5'', to_rule = 1\<rparr>,
       CreatePriceTriggeredOrder
         \<lparr>to_contract = ''BTC_USDT'', to_size = 3, to_price = ''99.7'', to_rule = 2\<rparr>])"
    using trigger_price_shifted_before_placement
      [of "\<lparr>to_contract = ''BTC_USDT'', to_size = 3, to_price = ''100.5'', to_rule = 1\<rparr>"
          short_btc "''BTC_USDT''" "Some 99" "Some 99.9"]
    by (simp add: setPositionStopLoss_def short_btc_def heldPosition_def positionSide_def
        positionCloseSize_def stopLossBlock_def takeProfitBlock_def createTrigger_def
        stopLossOrder_def takeProfitOrder_def adjustStopLoss_def adjustTakeProfit_def
        formatPriceByTickSize_def toFixed_table_def js_round_def createdId_def priceAfter_def
        truthyNumber_def Let_def)
  have safe: "safeTrigger StopLossTrigger Short 100 99 100.5"
    "safeTrigger TakeProfitTrigger Short 100 99.9 99.7"
    "\<not> safeTrigger StopLossTrigger Short 100 99 99.5"
    by (simp_all add: safeTrigger_def alreadyTriggered_def)
  from long short safe show ?thesis by blast
qed

text \<open>
  C10, as stated, fails in its second half: with a position held and only a take-profit
  requested, no stop-loss creation fails (the block is skipped), the take-profit creation
  is rejected, and the call returns \<open>success = false\<close>.
\<close>

theorem take_profit_only_failure_counterexample:
  "heldPosition [\<lparr>pi_contract = ''BTC_USDT'', pi_size = 3\<rparr>] ''BTC_USDT''
     = Some \<lparr>pi_contract = ''BTC_USDT'', pi_size = 3\<rparr> \<and>
   stopLossBlock (long_btc (\<lambda>order. Inl ''rejected'')) ''BTC_USDT'' Long 3 None = (Skipped, []) \<and>
   fst (setPositionStopLoss (long_btc (\<lambda>order. Inl ''rejected'')) ''BTC_USDT'' None (Some 110)) =
     \<lparr>success = False, stopLossOrderId = None, takeProfitOrderId = None,
      message = TakeProfitFailed (ExchangeError ''rejected'')\<rparr>"
  by (simp add: setPositionStopLoss_def long_btc_def heldPosition_def positionSide_def
      positionCloseSize_def stopLossBlock_def takeProfitBlock_def createTrigger_def
      takeProfitOrder_def adjustTakeProfit_def failure_def truthyString_def
      formatPriceByTickSize_def toFixed_table_def js_round_def createdId_def Let_def)

text \<open>
  C10 (amended): when the stop-loss order is created with an identifier and the creation
  of the take-profit order fails, the call returns \<open>success = true\<close> with that
  \<open>stopLossOrderId\<close> and no \<open>takeProfitOrderId\<close>. It returns \<open>success = false\<close> exactly
  when fetching the positions fails, when no position of non-zero size exists for the
  contract, when the stop-loss block fails, or when the take-profit block fails and the
  stop-loss block has left no identifier (it was skipped, or the order came back without
  one).
\<close>

theorem setPositionStopLoss_success:
  "(case sl_getPositions api of
      Inl e \<Rightarrow> \<not> success (fst (setPositionStopLoss api contract stopLoss takeProfit))
    | Inr ps \<Rightarrow>
        (case heldPosition ps contract of
           None \<Rightarrow> \<not> success (fst (setPositionStopLoss api contract stopLoss takeProfit))
         | Some position \<Rightarrow>
             (let slOutcome = fst (stopLossBlock api contract (positionSide position)
                                     (positionCloseSize position) stopLoss);
                  tpOutcome = fst (takeProfitBlock api contract (positionSide position)
                                     (positionCloseSize position) takeProfit)
              in (success (fst (setPositionStopLoss api contract stopLoss takeProfit)) \<longleftrightarrow>
                    \<not> isFailed slOutcome \<and>
                    (isFailed tpOutcome \<longrightarrow> truthyString (createdId slOutcome)))
               \<and> (\<forall>slId a e. slOutcome = Created (Some slId) a \<and> slId \<noteq> [] \<and>
                     tpOutcome = BlockFailed e \<longrightarrow>
                     fst (setPositionStopLoss api contract stopLoss takeProfit) =
                       \<lparr>success = True, stopLossOrderId = Some slId, takeProfitOrderId = None,
                        message = StopLossSetTakeProfitFailed e\<rparr>))))"
  by (auto simp: setPositionStopLoss_def failure_def isFailed_def createdId_def truthyString_def
      Let_def split: sum.splits option.splits prod.splits block_outcome.splits)

theorem setPositionStopLoss_success_witness:
  "fst (setPositionStopLoss (long_btc (\<lambda>order. Inl ''rejected'')) ''BTC_USDT'' (Some 95) (Some 110)) =
     \<lparr>success = True, stopLossOrderId = Some ''7001'', takeProfitOrderId = None,
      message = StopLossSetTakeProfitFailed (ExchangeError ''rejected'')\<rparr>"
  using setPositionStopLoss_success
    [of "long_btc (\<lambda>order. Inl ''rejected'')" "''BTC_USDT''" "Some 95" "Some 110"]
  by (simp add: setPositionStopLoss_def long_btc_def heldPosition_def positionSide_def
      positionCloseSize_def stopLossBlock_def takeProfitBlock_def createTrigger_def
      stopLossOrder_def takeProfitOrder_def adjustStopLoss_def adjustTakeProfit_def
      formatPriceByTickSize_def toFixed_table_def js_round_def createdId_def truthyString_def
      Let_def)


subsection \<open>Fee service\<close>

lemma foldl_abs_sum: "foldl (\<lambda>sum trade. sum + \<bar>tradeFee trade\<bar>) acc ts = acc + (\<Sum>t\<leftarrow>ts. \<bar>tradeFee t\<bar>)"
  by (induction ts arbitrary: acc) auto

lemma getActualFee_lookup:
  assumes miss: "cachedFee feeCache now oid = None"
    and fills: "fx_getMyTrades exchangeClient contract 100 (queryStartTime now startTime) = Inr fills"
    and found: "matchedTrades oid fills \<noteq> []"
  shows "fst (getActualFeeFromTrade exchangeClient now oid contract startTime feeCache) =
           Some \<lparr>fee = (\<Sum>t\<leftarrow>matchedTrades oid fills. \<bar>tradeFee t\<bar>), fee_from = Actual, rate = None\<rparr>"
  using assms by (simp add: getActualFeeFromTrade_def foldl_abs_sum Let_def)

text \<open>
  C9: when \<open>getFee\<close> is called with an order id, no fresh cache entry answers for it, the
  trade history holds fills of the order and the absolute fees of these fills add up to
  0, the result is the estimate: source \<open>estimated\<close>, the configured maker or taker rate of
  the venue and network, and as fee the notional value times that rate (in absolute value).
  Moreover, whatever the arguments, a result of source \<open>actual\<close> has a fee above 0.
\<close>

theorem getFee_zero_fee_falls_back:
  assumes oid: "oid \<noteq> []"
    and miss: "cachedFee feeCache now oid = None"
    and fills: "fx_getMyTrades exchangeClient contract 100 (queryStartTime now startTime) = Inr fills"
    and found: "matchedTrades oid fills \<noteq> []"
    and zero: "(\<Sum>t\<leftarrow>matchedTrades oid fills. \<bar>tradeFee t\<bar>) = 0"
    and rate: "feeRate = (if isMaker
                 then maker (FEE_RATES (fx_getExchangeName exchangeClient) (fx_isTestnet exchangeClient))
                 else taker (FEE_RATES (fx_getExchangeName exchangeClient) (fx_isTestnet exchangeClient)))"
  shows "fst (getFee FEE_RATES exchangeClient now (Some oid) contract notionalValue isMaker startTime feeCache)
           = \<lparr>fee = \<bar>notionalValue * feeRate\<bar>, fee_from = Estimated, rate = Some feeRate\<rparr>
       \<and> (\<forall>orderId notional maker' start cache.
             fee_from (fst (getFee FEE_RATES exchangeClient now orderId contract notional maker' start cache)) = Actual
             \<longrightarrow> 0 < fee (fst (getFee FEE_RATES exchangeClient now orderId contract notional maker' start cache)))"
proof -
  have "fst (getActualFeeFromTrade exchangeClient now oid contract startTime feeCache) =
           Some \<lparr>fee = 0, fee_from = Actual, rate = None\<rparr>"
    using getActualFee_lookup[OF miss fills found] zero by simp
  then have first: "fst (getFee FEE_RATES exchangeClient now (Some oid) contract notionalValue isMaker startTime feeCache)
           = \<lparr>fee = \<bar>notionalValue * feeRate\<bar>, fee_from = Estimated, rate = Some feeRate\<rparr>"
    using oid rate
    by (cases "getActualFeeFromTrade exchangeClient now oid contract startTime feeCache")
       (simp add: getFee_def estimateFee_def Let_def)
  have second: "\<forall>orderId notional maker' start cache.
             fee_from (fst (getFee FEE_RATES exchangeClient now orderId contract notional maker' start cache)) = Actual
             \<longrightarrow> 0 < fee (fst (getFee FEE_RATES exchangeClient now orderId contract notional maker' start cache))"
    by (auto simp: getFee_def estimateFee_def Let_def split: option.splits prod.splits if_splits)
  show ?thesis using first second by blast
qed

theorem getFee_zero_fee_falls_back_witness:
  "fst (getFee sample_rates (gate_mainnet [zero_fee_fill]) 1000000 (Some ''o-42'') ''BTC_USDT'' 200 False None Map.empty)
     = \<lparr>fee = 0.1, fee_from = Estimated, rate = Some 0.0005\<rparr>"
  using getFee_zero_fee_falls_back
    [where oid = "''o-42''" and feeCache = Map.empty and now = 1000000
       and exchangeClient = "gate_mainnet [zero_fee_fill]" and contract = "''BTC_USDT''"
       and startTime = None and fills = "[zero_fee_fill]" and feeRate = "0.0005"
       and isMaker = False and FEE_RATES = sample_rates and notionalValue = 200]
  by (simp add: gate_mainnet_def zero_fee_fill_def sample_rates_def tradeFee_def cachedFee_def
      matchedTrades_def strictEq_def)


subsection \<open>Reconciler: the runs of the scenario\<close>

lemma eth_state_fields:
  "is_id eth_state = 7" "is_operation eth_state = ''close_position''"
  "is_symbol eth_state = ''ETH''" "is_side eth_state = ''short''"
  "is_exchange_order_id eth_state = ''987654321''"
  by (simp_all add: eth_state_def)

lemma unreachable_fails:
  "resolveState faults unreachable_exchange timestamp state db = (False, db)"
  by (simp add: resolveState_def resolveClosePosition_def unreachable_exchange_def Let_def)

lemma eth_unresolved:
  "execute no_faults SelectUnresolvedStates
     \<lparr>tables = eth_store, snapshot = None, journal = j\<rparr> =
   (Inr (StateRows [eth_state]),
    \<lparr>tables = eth_store, snapshot = None, journal = j @ [SelectUnresolvedStates]\<rparr>)"
  by (simp add: execute_def applySql_def no_faults_def eth_store_def eth_state_def Let_def)

lemma eth_failing_pass:
  "resolveInconsistentStates no_faults unreachable_exchange 9000 tracker
     \<lparr>tables = eth_store, snapshot = None, journal = j\<rparr> =
   (fst (trk_recordFailure 7 tracker),
    snd (trk_recordFailure 7 tracker) @ checkOverallFailures (fst (trk_recordFailure 7 tracker)),
    \<lparr>tables = eth_store, snapshot = None, journal = j @ [SelectUnresolvedStates]\<rparr>)"
  by (simp add: resolveInconsistentStates_def eth_unresolved unreachable_fails eth_state_fields
      Let_def split: prod.splits)

subsection \<open>Reconciler: the repair transaction\<close>

lemma writeCloseRecords_atomic:
  assumes idle: "snapshot db = None" and rollback: "\<forall>n. \<not> faults n Rollback"
  shows "snapshot (snd (writeCloseRecords faults timestamp symbol side tradeRow eventRow db)) = None \<and>
     (if fst (writeCloseRecords faults timestamp symbol side tradeRow eventRow db)
      then tables (snd (writeCloseRecords faults timestamp symbol side tradeRow eventRow db)) =
             closeWritten timestamp symbol side tradeRow eventRow (tables db) \<and>
           journal (snd (writeCloseRecords faults timestamp symbol side tradeRow eventRow db)) =
             journal db @ closeTransaction timestamp symbol side tradeRow eventRow
      else tables (snd (writeCloseRecords faults timestamp symbol side tradeRow eventRow db)) = tables db)"
  using idle rollback
  by (simp add: writeCloseRecords_def execute_def applySql_def closeWritten_def closeTransaction_def
      cancelActive_def Let_def)


lemma execute_select:
  "tables (snd (execute faults (SelectLatestOpenTrade symbol side) db)) = tables db"
  "snapshot (snd (execute faults (SelectLatestOpenTrade symbol side) db)) = snapshot db"
  "journal (snd (execute faults (SelectLatestOpenTrade symbol side) db)) =
     journal db @ [SelectLatestOpenTrade symbol side]"
  by (simp_all add: execute_def applySql_def Let_def)

lemma resolveClosePosition_shape:
  assumes "resolveClosePosition faults ex ts state db = (ok, db')"
  shows "(\<not> ok \<and> tables db' = tables db \<and> snapshot db' = snapshot db) \<or>
         (\<exists>fills closeTrade openTrade tradeRow eventRow db1.
            rx_getMyTrades ex (rx_normalizeContract ex (is_symbol state)) 100 = Inr fills \<and>
            find (matchesOrder (is_exchange_order_id state)) fills = Some closeTrade \<and>
            closeRecords ex ts state (rx_normalizeContract ex (is_symbol state)) openTrade closeTrade
              = Inr (tradeRow, eventRow) \<and>
            tables db1 = tables db \<and> snapshot db1 = snapshot db \<and>
            journal db1 = journal db @ [SelectLatestOpenTrade (is_symbol state) (is_side state)] \<and>
            writeCloseRecords faults ts (is_symbol state) (is_side state) tradeRow eventRow db1
              = (ok, db'))"
proof -
  let ?sel = "execute faults (SelectLatestOpenTrade (is_symbol state) (is_side state)) db"
  have sel: "tables (snd ?sel) = tables db" "snapshot (snd ?sel) = snapshot db"
    "journal (snd ?sel) = journal db @ [SelectLatestOpenTrade (is_symbol state) (is_side state)]"
    by (rule execute_select)+
  obtain r db1 where r: "?sel = (r, db1)" by (cases ?sel)
  with sel have db1: "tables db1 = tables db" "snapshot db1 = snapshot db"
    "journal db1 = journal db @ [SelectLatestOpenTrade (is_symbol state) (is_side state)]"
    by simp_all
  show ?thesis
    using assms db1 unfolding resolveClosePosition_def Let_def r
    by (auto split: sum.splits option.splits if_splits sql_rows.splits list.splits prod.splits)
qed


lemma writeCloseRecords_committed:
  assumes "writeCloseRecords faults timestamp symbol side tradeRow eventRow db = (True, db')"
  shows "tables db' = closeWritten timestamp symbol side tradeRow eventRow (tables db) \<and>
         snapshot db' = None \<and>
         journal db' = journal db @ closeTransaction timestamp symbol side tradeRow eventRow"
  using assms
  by (auto simp: writeCloseRecords_def execute_def applySql_def closeWritten_def closeTransaction_def
      cancelActive_def Let_def split: if_splits option.splits)

lemma closeRecords_rows:
  assumes "closeRecords ex ts state contract openTrade closeTrade = Inr (tradeRow, eventRow)"
  shows "\<exists>notional. closeNotional ex contract closeTrade = Some notional \<and>
           t_fee tradeRow = notional * 0.001 \<and> e_fee eventRow = notional * 0.001 \<and>
           t_type tradeRow = ''close'' \<and> e_close_reason eventRow = ''system_recovered''"
  using assms
  by (auto simp: closeRecords_def closeNotional_def Let_def split: sum.splits if_splits)

lemma resolveState_eq:
  "resolveState faults ex ts state db = (ok, db') \<Longrightarrow>
     (\<not> ok \<and> db' = db) \<or> resolveClosePosition faults ex ts state db = (ok, db')"
  by (auto simp: resolveState_def split: if_splits)

lemma eth_closeRecords:
  "closeRecords eth_exchange 9000 eth_state ''ETH_USDT'' eth_open_trade eth_fill =
     Inr (eth_close_trade, eth_close_event)"
  by (simp add: closeRecords_def eth_exchange_def eth_state_def eth_open_trade_def eth_fill_def
      gate_calculatePnl_def fillQuantity_def openLeverage_def truthyNumber_def
      eth_close_trade_def eth_close_event_def Let_def)

lemma eth_exchange_answers:
  "rx_getPositions eth_exchange = Inr []"
  "rx_normalizeContract eth_exchange ''ETH'' = ''ETH_USDT''"
  "rx_getMyTrades eth_exchange ''ETH_USDT'' 100 = Inr [eth_fill]"
  "matchesOrder ''987654321'' eth_fill"
  by (simp_all add: eth_exchange_def gate_normalizeContract_def eth_fill_def matchesOrder_def
      idToString_def)

lemma eth_select:
  assumes "\<not> faults 0 (SelectLatestOpenTrade ''ETH'' ''short'')"
  shows "execute faults (SelectLatestOpenTrade ''ETH'' ''short'') eth_db =
     (Inr (TradeRows [eth_open_trade]),
      \<lparr>tables = eth_store, snapshot = None, journal = [SelectLatestOpenTrade ''ETH'' ''short'']\<rparr>)"
  using assms
  by (simp add: execute_def applySql_def eth_db_def eth_store_def eth_open_trade_def Let_def)

lemma eth_resolve:
  assumes "\<not> faults 0 (SelectLatestOpenTrade ''ETH'' ''short'')"
  shows "resolveState faults eth_exchange 9000 eth_state eth_db =
     writeCloseRecords faults 9000 ''ETH'' ''short'' eth_close_trade eth_close_event
       \<lparr>tables = eth_store, snapshot = None, journal = [SelectLatestOpenTrade ''ETH'' ''short'']\<rparr>"
  by (simp add: resolveState_def resolveClosePosition_def Let_def eth_state_fields
      eth_exchange_answers eth_select[where faults = faults, OF assms] eth_closeRecords)

lemma eth_closeWritten:
  "closeWritten 9000 ''ETH'' ''short'' eth_close_trade eth_close_event eth_store =
     eth_resolved_store\<lparr>inconsistent_states := [eth_state]\<rparr>"
  by (simp add: closeWritten_def cancelActive_def eth_store_def eth_resolved_store_def)

lemma writeCloseRecords_no_faults:
  assumes "snapshot db = None"
  shows "writeCloseRecords no_faults timestamp symbol side tradeRow eventRow db =
     (True, db\<lparr>tables := closeWritten timestamp symbol side tradeRow eventRow (tables db),
               journal := journal db @ closeTransaction timestamp symbol side tradeRow eventRow\<rparr>)"
  using assms
  by (simp add: writeCloseRecords_def execute_def applySql_def no_faults_def Let_def
      closeWritten_def closeTransaction_def cancelActive_def)

lemma eth_repaired:
  "resolveState no_faults eth_exchange 9000 eth_state eth_db =
     (True, \<lparr>tables = eth_resolved_store\<lparr>inconsistent_states := [eth_state]\<rparr>, snapshot = None,
             journal = SelectLatestOpenTrade ''ETH'' ''short''
                       # closeTransaction 9000 ''ETH'' ''short'' eth_close_trade eth_close_event\<rparr>)"
proof -
  have "\<not> no_faults 0 (SelectLatestOpenTrade ''ETH'' ''short'')" by (simp add: no_faults_def)
  from eth_resolve[where faults = no_faults, OF this] show ?thesis
    by (simp add: writeCloseRecords_no_faults eth_closeWritten)
qed

lemma eth_rolled_back:
  "fst (resolveState insert_event_fails eth_exchange 9000 eth_state eth_db) = False"
proof -
  have "\<not> insert_event_fails 0 (SelectLatestOpenTrade ''ETH'' ''short'')"
    by (simp add: insert_event_fails_def)
  from eth_resolve[where faults = insert_event_fails, OF this] show ?thesis
    by (simp add: writeCloseRecords_def execute_def applySql_def insert_event_fails_def Let_def)
qed


lemma eth_repaired_close:
  "resolveClosePosition no_faults eth_exchange 9000 eth_state eth_db =
     (True, \<lparr>tables = eth_resolved_store\<lparr>inconsistent_states := [eth_state]\<rparr>, snapshot = None,
             journal = SelectLatestOpenTrade ''ETH'' ''short''
                       # closeTransaction 9000 ''ETH'' ''short'' eth_close_trade eth_close_event\<rparr>)"
  using eth_repaired by (simp add: resolveState_def eth_state_fields)

text \<open>
  C1: let a repair start with no transaction open and let \<open>ROLLBACK\<close> itself not fail.
  Whatever else fails, the repair leaves no transaction open; when it returns false the
  tables are what they were; when it returns true the tables are the old ones with the four
  writes applied (position row deleted, active price orders of the position cancelled,
  close trade row and close event row with reason \<open>system_recovered\<close> inserted), and
  the statements issued after the lookup of the open trade are exactly \<open>BEGIN\<close>, the four
  writes and \<open>COMMIT\<close>. After a repair that returned true, and unless the update itself
  fails, the loop marks every row of the state's id resolved (\<open>resolved = 1\<close>,
  \<open>resolved_by = 'auto'\<close>) and records the success.
\<close>

theorem reconciler_repair_is_atomic:
  assumes idle: "snapshot db = None"
    and rollback: "\<forall>n. \<not> faults n Rollback"
    and run: "resolveState faults ex ts state db = (ok, db')"
  shows "snapshot db' = None
     \<and> (\<not> ok \<longrightarrow> tables db' = tables db)
     \<and> (ok \<longrightarrow> (\<exists>tradeRow eventRow.
            tables db' = closeWritten ts (is_symbol state) (is_side state) tradeRow eventRow (tables db)
          \<and> t_type tradeRow = ''close'' \<and> e_close_reason eventRow = ''system_recovered''
          \<and> journal db' = journal db @ SelectLatestOpenTrade (is_symbol state) (is_side state)
                # closeTransaction ts (is_symbol state) (is_side state) tradeRow eventRow))
     \<and> (ok \<and> \<not> faults (length (journal db')) (MarkStateResolved ts (is_id state)) \<longrightarrow>
          resolveEach faults ex ts [state] (tracker, alerts, db) =
            (trk_recordSuccess (is_id state) tracker, alerts,
             db'\<lparr>journal := journal db' @ [MarkStateResolved ts (is_id state)],
                 tables := (tables db')\<lparr>inconsistent_states :=
                   map (markResolved ts (is_id state)) (inconsistent_states (tables db'))\<rparr>\<rparr>))"
proof -
  have mark: "ok \<and> \<not> faults (length (journal db')) (MarkStateResolved ts (is_id state)) \<longrightarrow>
          resolveEach faults ex ts [state] (tracker, alerts, db) =
            (trk_recordSuccess (is_id state) tracker, alerts,
             db'\<lparr>journal := journal db' @ [MarkStateResolved ts (is_id state)],
                 tables := (tables db')\<lparr>inconsistent_states :=
                   map (markResolved ts (is_id state)) (inconsistent_states (tables db'))\<rparr>\<rparr>)"
    using run by (auto simp: execute_def applySql_def markResolved_def Let_def)
  from resolveState_eq[OF run] show ?thesis
  proof
    assume "\<not> ok \<and> db' = db"
    then show ?thesis using idle by simp
  next
    assume rcp: "resolveClosePosition faults ex ts state db = (ok, db')"
    from resolveClosePosition_shape[OF rcp] show ?thesis
    proof
      assume "\<not> ok \<and> tables db' = tables db \<and> snapshot db' = snapshot db"
      then show ?thesis using idle by simp
    next
      assume "\<exists>fills closeTrade openTrade tradeRow eventRow db1.
            rx_getMyTrades ex (rx_normalizeContract ex (is_symbol state)) 100 = Inr fills \<and>
            find (matchesOrder (is_exchange_order_id state)) fills = Some closeTrade \<and>
            closeRecords ex ts state (rx_normalizeContract ex (is_symbol state)) openTrade closeTrade
              = Inr (tradeRow, eventRow) \<and>
            tables db1 = tables db \<and> snapshot db1 = snapshot db \<and>
            journal db1 = journal db @ [SelectLatestOpenTrade (is_symbol state) (is_side state)] \<and>
            writeCloseRecords faults ts (is_symbol state) (is_side state) tradeRow eventRow db1
              = (ok, db')"
      then obtain closeTrade openTrade tradeRow eventRow db1 where
        rows: "closeRecords ex ts state (rx_normalizeContract ex (is_symbol state)) openTrade closeTrade
              = Inr (tradeRow, eventRow)"
        and db1: "tables db1 = tables db" "snapshot db1 = snapshot db"
          "journal db1 = journal db @ [SelectLatestOpenTrade (is_symbol state) (is_side state)]"
        and w: "writeCloseRecords faults ts (is_symbol state) (is_side state) tradeRow eventRow db1
              = (ok, db')"
        by blast
      from closeRecords_rows[OF rows] have kinds:
        "t_type tradeRow = ''close''" "e_close_reason eventRow = ''system_recovered''" by auto
      have idle1: "snapshot db1 = None" using db1 idle by simp
      from writeCloseRecords_atomic[where db = db1 and faults = faults and timestamp = ts
          and symbol = "is_symbol state" and side = "is_side state" and tradeRow = tradeRow
          and eventRow = eventRow, OF idle1 rollback, unfolded w fst_conv snd_conv]
      have "snapshot db' = None \<and>
        (if ok then tables db' = closeWritten ts (is_symbol state) (is_side state) tradeRow eventRow (tables db1) \<and>
           journal db' = journal db1 @ closeTransaction ts (is_symbol state) (is_side state) tradeRow eventRow
         else tables db' = tables db1)"
        by simp
      then show ?thesis using db1 kinds mark by auto
    qed
  qed
qed

theorem reconciler_repair_is_atomic_witness:
  "fst (resolveState insert_event_fails eth_exchange 9000 eth_state eth_db) = False \<and>
   tables (snd (resolveState insert_event_fails eth_exchange 9000 eth_state eth_db)) = eth_store \<and>
   tables (snd (snd (resolveEach no_faults eth_exchange 9000 [eth_state] (newTracker, [], eth_db))))
     = eth_resolved_store"
proof -
  let ?R = "resolveState insert_event_fails eth_exchange 9000 eth_state eth_db"
  have idle: "snapshot eth_db = None" by (simp add: eth_db_def)
  have rb: "\<forall>n. \<not> insert_event_fails n Rollback" by (simp add: insert_event_fails_def)
  have run: "?R = (fst ?R, snd ?R)" by simp
  from reconciler_repair_is_atomic[where faults = insert_event_fails and db = eth_db
      and ex = eth_exchange and ts = 9000 and state = eth_state, OF idle rb run]
  have "\<not> fst ?R \<longrightarrow> tables (snd ?R) = tables eth_db" by blast
  with eth_rolled_back have failed: "fst ?R = False \<and> tables (snd ?R) = eth_store"
    by (simp add: eth_db_def)
  have rb2: "\<forall>n. \<not> no_faults n Rollback" by (simp add: no_faults_def)
  from reconciler_repair_is_atomic[where faults = no_faults and db = eth_db
      and ex = eth_exchange and ts = 9000 and state = eth_state
      and tracker = newTracker and alerts = "[]", OF idle rb2 eth_repaired]
  have "tables (snd (snd (resolveEach no_faults eth_exchange 9000 [eth_state] (newTracker, [], eth_db))))
     = eth_resolved_store"
    by (simp add: no_faults_def markResolved_def eth_state_fields eth_resolved_store_def)
  with failed show ?thesis by blast
qed


subsection \<open>Reconciler: failure tracking\<close>

lemma failureCount_recordFailure:
  "failureCount (fst (trk_recordFailure stateId t)) other =
     (if other = stateId then failureCount t stateId + 1 else failureCount t other)"
  by (simp add: trk_recordFailure_def failureCount_def Let_def update_conv')

lemma failureCount_recordSuccess:
  "failureCount (trk_recordSuccess stateId t) other =
     (if other = stateId then 0 else failureCount t other)"
  by (simp add: trk_recordSuccess_def failureCount_def delete_conv')

lemma recordAttempts_snoc:
  "recordAttempts (attempts @ [a]) t = recordAttempt a (recordAttempts attempts t)"
  by (simp add: recordAttempts_def)

lemma recordAttempts_consecutive:
  "trk_consecutiveFailures (recordAttempts attempts newTracker) = failuresSinceSuccess attempts"
proof (induction attempts rule: rev_induct)
  case Nil
  show ?case by (simp add: recordAttempts_def failuresSinceSuccess_def newTracker_def)
next
  case (snoc a attempts)
  then show ?case
    by (cases a)
       (simp_all add: recordAttempts_snoc failuresSinceSuccess_def trk_recordFailure_def
          trk_recordSuccess_def Let_def)
qed

lemma recordAttempts_count:
  "failureCount (recordAttempts attempts newTracker) stateId = failuresOfSinceSuccess stateId attempts"
proof (induction attempts rule: rev_induct)
  case Nil
  show ?case by (simp add: recordAttempts_def failuresOfSinceSuccess_def newTracker_def failureCount_def)
next
  case (snoc a attempts)
  then show ?case
    by (cases a)
       (auto simp: recordAttempts_snoc failuresOfSinceSuccess_def failureCount_recordFailure
          failureCount_recordSuccess)
qed

lemma resolveEach_step:
  "resolveEach faults exchangeClient timestamp (state # rest) (t, alerts, db) =
     resolveEach faults exchangeClient timestamp rest
       (if fst (resolveState faults exchangeClient timestamp state db) \<and>
           \<not> faults (length (journal (snd (resolveState faults exchangeClient timestamp state db))))
               (MarkStateResolved timestamp (is_id state))
        then (trk_recordSuccess (is_id state) t, alerts,
              snd (execute faults (MarkStateResolved timestamp (is_id state))
                     (snd (resolveState faults exchangeClient timestamp state db))))
        else (fst (trk_recordFailure (is_id state) t),
              alerts @ snd (trk_recordFailure (is_id state) t),
              if fst (resolveState faults exchangeClient timestamp state db)
              then snd (execute faults (MarkStateResolved timestamp (is_id state))
                          (snd (resolveState faults exchangeClient timestamp state db)))
              else snd (resolveState faults exchangeClient timestamp state db)))"
  by (cases "resolveState faults exchangeClient timestamp state db")
     (auto simp: execute_def applySql_def Let_def split: prod.splits sum.splits)

lemma pass_alerts:
  assumes "execute faults SelectUnresolvedStates db = (Inr (StateRows rows), db1)"
  shows "resolveInconsistentStates faults exchangeClient timestamp t db =
     (if rows = [] then (t, [], db1)
      else (fst (resolveEach faults exchangeClient timestamp rows (t, [], db1)),
            fst (snd (resolveEach faults exchangeClient timestamp rows (t, [], db1)))
              @ checkOverallFailures (fst (resolveEach faults exchangeClient timestamp rows (t, [], db1))),
            snd (snd (resolveEach faults exchangeClient timestamp rows (t, [], db1)))))"
  using assms
  by (cases "resolveEach faults exchangeClient timestamp rows (t, [], db1)")
     (simp add: resolveInconsistentStates_def)

lemma pass_select_fails:
  assumes "faults (length (journal db)) SelectUnresolvedStates"
  shows "fst (resolveInconsistentStates faults exchangeClient timestamp t db) = t"
    "fst (snd (resolveInconsistentStates faults exchangeClient timestamp t db)) = []"
  using assms by (simp_all add: resolveInconsistentStates_def execute_def Let_def)

lemma writeCloseRecords_mark_update_fails:
  assumes "snapshot db = None"
  shows "writeCloseRecords mark_update_fails timestamp symbol side tradeRow eventRow db =
     (True, db\<lparr>tables := closeWritten timestamp symbol side tradeRow eventRow (tables db),
               journal := journal db @ closeTransaction timestamp symbol side tradeRow eventRow\<rparr>)"
  using assms
  by (simp add: writeCloseRecords_def execute_def applySql_def mark_update_fails_def Let_def
      closeWritten_def closeTransaction_def cancelActive_def)

lemma eth_repaired_unmarked:
  "resolveState mark_update_fails eth_exchange 9000 eth_state eth_db =
     (True, \<lparr>tables = eth_resolved_store\<lparr>inconsistent_states := [eth_state]\<rparr>, snapshot = None,
             journal = SelectLatestOpenTrade ''ETH'' ''short''
                       # closeTransaction 9000 ''ETH'' ''short'' eth_close_trade eth_close_event\<rparr>)"
proof -
  have "\<not> mark_update_fails 0 (SelectLatestOpenTrade ''ETH'' ''short'')"
    by (simp add: mark_update_fails_def)
  from eth_resolve[where faults = mark_update_fails, OF this] show ?thesis
    by (simp add: writeCloseRecords_mark_update_fails eth_closeWritten)
qed

lemma four_failures:
  "fst (failTimes 4 7 (newTracker, [])) = \<lparr>trk_consecutiveFailures = 4, failedStates = [(7, 4)]\<rparr>"
  by (simp add: eval_nat_numeral trk_recordFailure_def failureCount_def newTracker_def Let_def)

lemma resolved_nothing_to_do:
  "execute no_faults SelectUnresolvedStates \<lparr>tables = eth_resolved_store, snapshot = None, journal = []\<rparr> =
     (Inr (StateRows []),
      \<lparr>tables = eth_resolved_store, snapshot = None, journal = [SelectUnresolvedStates]\<rparr>)"
  by (simp add: execute_def applySql_def no_faults_def eth_resolved_store_def Let_def)

text \<open>
  C4, as stated, fails: five reconciler passes in a row over the one unresolved state,
  each failing because the exchange cannot be reached, send exactly one alert, on the fifth
  failure, and its level is \<open>ERROR\<close>, not \<open>WARNING\<close>.
\<close>

theorem fifth_failure_alert_is_error_counterexample:
  "map level (fst (snd (reconcilePasses 5 no_faults unreachable_exchange 9000 (newTracker, [], eth_db))))
     = [ERROR] \<and> ERROR \<noteq> WARNING"
  by (simp add: eval_nat_numeral eth_db_def eth_failing_pass trk_recordFailure_def failureCount_def
      checkOverallFailures_def newTracker_def Let_def)

text \<open>
  C4 (amended): a failed repair attempt adds one to the failure counter of its state
  (leaving the counters of the other states alone) and one to the count of consecutive
  failures; it sends an alert exactly when the counter of the state has reached 5 or more,
  and that alert is of level \<open>ERROR\<close>. A successful attempt sets the counter of its state
  and the count of consecutive failures back to 0 and leaves the counters of the other
  states alone; so, from a new tracker on, the count of consecutive failures is the number
  of failures, of whatever states, since the last success, and the counter of a state the
  number of its failures since its last success. In the loop an attempt counts as a
  success when the repair returns true and the \<open>UPDATE\<close> that marks the state as resolved
  goes through, and as a failure otherwise: when the repair returns false, and when that
  \<open>UPDATE\<close> fails. Only at the end of a pass over a list of unresolved states that is not
  empty, an alert of level \<open>CRITICAL\<close> is sent exactly when the count of consecutive
  failures is 10 or more; a pass that finds no unresolved state, or whose query fails,
  sends no alert and leaves the tracker as it is.
\<close>

theorem reconcile_failure_alerts:
  "failureCount (fst (trk_recordFailure stateId t)) stateId = failureCount t stateId + 1
   \<and> (\<forall>other. other \<noteq> stateId \<longrightarrow>
         failureCount (fst (trk_recordFailure stateId t)) other = failureCount t other)
   \<and> trk_consecutiveFailures (fst (trk_recordFailure stateId t)) = trk_consecutiveFailures t + 1
   \<and> snd (trk_recordFailure stateId t) =
        (if 5 \<le> failureCount t stateId + 1
         then [\<lparr>level = ERROR,
                details = StateFailing stateId (failureCount t stateId + 1)
                            (trk_consecutiveFailures t + 1)\<rparr>]
         else [])
   \<and> map level (checkOverallFailures t) = (if 10 \<le> trk_consecutiveFailures t then [CRITICAL] else [])
   \<and> failureCount (trk_recordSuccess stateId t) stateId = 0
   \<and> (\<forall>other. other \<noteq> stateId \<longrightarrow>
         failureCount (trk_recordSuccess stateId t) other = failureCount t other)
   \<and> trk_consecutiveFailures (trk_recordSuccess stateId t) = 0
   \<and> trk_consecutiveFailures (recordAttempts attempts newTracker) = failuresSinceSuccess attempts
   \<and> failureCount (recordAttempts attempts newTracker) stateId = failuresOfSinceSuccess stateId attempts
   \<and> resolveEach faults exchangeClient timestamp (state # rest) (t, alerts, db) =
       resolveEach faults exchangeClient timestamp rest
         (if fst (resolveState faults exchangeClient timestamp state db) \<and>
             \<not> faults (length (journal (snd (resolveState faults exchangeClient timestamp state db))))
                 (MarkStateResolved timestamp (is_id state))
          then (recordAttempt (Repaired (is_id state)) t, alerts,
                snd (execute faults (MarkStateResolved timestamp (is_id state))
                       (snd (resolveState faults exchangeClient timestamp state db))))
          else (recordAttempt (Failed (is_id state)) t,
                alerts @ snd (trk_recordFailure (is_id state) t),
                if fst (resolveState faults exchangeClient timestamp state db)
                then snd (execute faults (MarkStateResolved timestamp (is_id state))
                            (snd (resolveState faults exchangeClient timestamp state db)))
                else snd (resolveState faults exchangeClient timestamp state db)))
   \<and> resolveEach faults exchangeClient timestamp [] (t, alerts, db) = (t, alerts, db)
   \<and> (execute faults SelectUnresolvedStates db = (Inr (StateRows rows), selected) \<longrightarrow>
        resolveInconsistentStates faults exchangeClient timestamp t db =
          (if rows = [] then (t, [], selected)
           else (fst (resolveEach faults exchangeClient timestamp rows (t, [], selected)),
                 fst (snd (resolveEach faults exchangeClient timestamp rows (t, [], selected)))
                   @ checkOverallFailures
                       (fst (resolveEach faults exchangeClient timestamp rows (t, [], selected))),
                 snd (snd (resolveEach faults exchangeClient timestamp rows (t, [], selected))))))
   \<and> (faults (length (journal db)) SelectUnresolvedStates \<longrightarrow>
        fst (resolveInconsistentStates faults exchangeClient timestamp t db) = t \<and>
        fst (snd (resolveInconsistentStates faults exchangeClient timestamp t db)) = [])"
proof -
  have alert: "snd (trk_recordFailure stateId t) =
        (if 5 \<le> failureCount t stateId + 1
         then [\<lparr>level = ERROR,
                details = StateFailing stateId (failureCount t stateId + 1)
                            (trk_consecutiveFailures t + 1)\<rparr>]
         else [])"
    by (simp add: trk_recordFailure_def Let_def)
  have crit: "map level (checkOverallFailures t) = (if 10 \<le> trk_consecutiveFailures t then [CRITICAL] else [])"
    by (simp add: checkOverallFailures_def)
  have consec: "trk_consecutiveFailures (fst (trk_recordFailure stateId t)) = trk_consecutiveFailures t + 1"
    by (simp add: trk_recordFailure_def Let_def)
  have reset: "trk_consecutiveFailures (trk_recordSuccess stateId t) = 0"
    by (simp add: trk_recordSuccess_def)
  have step: "resolveEach faults exchangeClient timestamp (state # rest) (t, alerts, db) =
       resolveEach faults exchangeClient timestamp rest
         (if fst (resolveState faults exchangeClient timestamp state db) \<and>
             \<not> faults (length (journal (snd (resolveState faults exchangeClient timestamp state db))))
                 (MarkStateResolved timestamp (is_id state))
          then (recordAttempt (Repaired (is_id state)) t, alerts,
                snd (execute faults (MarkStateResolved timestamp (is_id state))
                       (snd (resolveState faults exchangeClient timestamp state db))))
          else (recordAttempt (Failed (is_id state)) t,
                alerts @ snd (trk_recordFailure (is_id state) t),
                if fst (resolveState faults exchangeClient timestamp state db)
                then snd (execute faults (MarkStateResolved timestamp (is_id state))
                            (snd (resolveState faults exchangeClient timestamp state db)))
                else snd (resolveState faults exchangeClient timestamp state db)))"
    unfolding recordAttempt.simps by (rule resolveEach_step)
  have pass: "execute faults SelectUnresolvedStates db = (Inr (StateRows rows), selected) \<longrightarrow>
        resolveInconsistentStates faults exchangeClient timestamp t db =
          (if rows = [] then (t, [], selected)
           else (fst (resolveEach faults exchangeClient timestamp rows (t, [], selected)),
                 fst (snd (resolveEach faults exchangeClient timestamp rows (t, [], selected)))
                   @ checkOverallFailures
                       (fst (resolveEach faults exchangeClient timestamp rows (t, [], selected))),
                 snd (snd (resolveEach faults exchangeClient timestamp rows (t, [], selected)))))"
    using pass_alerts by blast
  have nosel: "faults (length (journal db)) SelectUnresolvedStates \<longrightarrow>
        fst (resolveInconsistentStates faults exchangeClient timestamp t db) = t \<and>
        fst (snd (resolveInconsistentStates faults exchangeClient timestamp t db)) = []"
    using pass_select_fails by blast
  have counts: "failureCount (fst (trk_recordFailure stateId t)) stateId = failureCount t stateId + 1"
    "\<forall>other. other \<noteq> stateId \<longrightarrow>
         failureCount (fst (trk_recordFailure stateId t)) other = failureCount t other"
    "failureCount (trk_recordSuccess stateId t) stateId = 0"
    "\<forall>other. other \<noteq> stateId \<longrightarrow>
         failureCount (trk_recordSuccess stateId t) other = failureCount t other"
    by (simp_all add: failureCount_recordFailure failureCount_recordSuccess)
  have empty: "resolveEach faults exchangeClient timestamp [] (t, alerts, db) = (t, alerts, db)"
    by simp
  from counts consec alert crit reset recordAttempts_consecutive[of attempts]
    recordAttempts_count[of attempts stateId] step empty pass nosel
  show ?thesis by blast
qed


theorem reconcile_failure_alerts_witness:
  "failureCount (fst (failTimes 4 7 (newTracker, []))) 7 = 4 \<and>
   map level (snd (trk_recordFailure 7 (fst (failTimes 4 7 (newTracker, []))))) = [ERROR] \<and>
   snd (trk_recordFailure 7 (trk_recordSuccess 7 (fst (failTimes 4 7 (newTracker, []))))) = [] \<and>
   trk_consecutiveFailures (recordAttempts [Failed 7, Failed 8, Repaired 7, Failed 8] newTracker) = 1 \<and>
   failureCount (recordAttempts [Failed 7, Failed 8, Repaired 7, Failed 8] newTracker) 8 = 2 \<and>
   failureCount (recordAttempts [Failed 7, Failed 8, Repaired 7, Failed 8] newTracker) 7 = 0 \<and>
   fst (resolveEach no_faults eth_exchange 9000 [eth_state]
          (fst (failTimes 4 7 (newTracker, [])), [], eth_db)) = newTracker \<and>
   fst (snd (resolveEach no_faults eth_exchange 9000 [eth_state]
          (fst (failTimes 4 7 (newTracker, [])), [], eth_db))) = [] \<and>
   fst (resolveEach mark_update_fails eth_exchange 9000 [eth_state]
          (fst (failTimes 4 7 (newTracker, [])), [], eth_db)) =
     \<lparr>trk_consecutiveFailures = 5, failedStates = [(7, 5)]\<rparr> \<and>
   fst (snd (resolveEach mark_update_fails eth_exchange 9000 [eth_state]
          (fst (failTimes 4 7 (newTracker, [])), [], eth_db))) =
     [\<lparr>level = ERROR, details = StateFailing 7 5 5\<rparr>] \<and>
   fst (snd (resolveEach no_faults unreachable_exchange 9000 [eth_state]
          (fst (failTimes 4 7 (newTracker, [])), [], eth_db))) =
     [\<lparr>level = ERROR, details = StateFailing 7 5 5\<rparr>] \<and>
   resolveInconsistentStates no_faults unreachable_exchange 9000 (fst (failTimes 12 7 (newTracker, [])))
       \<lparr>tables = eth_resolved_store, snapshot = None, journal = []\<rparr> =
     (fst (failTimes 12 7 (newTracker, [])), [],
      \<lparr>tables = eth_resolved_store, snapshot = None, journal = [SelectUnresolvedStates]\<rparr>) \<and>
   map level (fst (snd (resolveInconsistentStates no_faults unreachable_exchange 9000
       \<lparr>trk_consecutiveFailures = 9, failedStates = [(7, 3), (8, 6)]\<rparr> eth_db))) = [CRITICAL]"
proof -
  let ?t4 = "fst (failTimes 4 7 (newTracker, []))"
  note alert = reconcile_failure_alerts[THEN conjunct2, THEN conjunct2, THEN conjunct2, THEN conjunct1]
  note sinceAll = reconcile_failure_alerts[THEN conjunct2, THEN conjunct2, THEN conjunct2, THEN conjunct2, THEN conjunct2, THEN conjunct2, THEN conjunct2, THEN conjunct2, THEN conjunct1]
  note sinceOne = reconcile_failure_alerts[THEN conjunct2, THEN conjunct2, THEN conjunct2, THEN conjunct2, THEN conjunct2, THEN conjunct2, THEN conjunct2, THEN conjunct2, THEN conjunct2, THEN conjunct1]
  note step = reconcile_failure_alerts[THEN conjunct2, THEN conjunct2, THEN conjunct2, THEN conjunct2, THEN conjunct2, THEN conjunct2, THEN conjunct2, THEN conjunct2, THEN conjunct2, THEN conjunct2, THEN conjunct1]
  note pass = reconcile_failure_alerts[THEN conjunct2, THEN conjunct2, THEN conjunct2, THEN conjunct2, THEN conjunct2, THEN conjunct2, THEN conjunct2, THEN conjunct2, THEN conjunct2, THEN conjunct2, THEN conjunct2, THEN conjunct2, THEN conjunct1]
  have tracker: "failureCount ?t4 7 = 4"
    "map level (snd (trk_recordFailure 7 ?t4)) = [ERROR]"
    "snd (trk_recordFailure 7 (trk_recordSuccess 7 ?t4)) = []"
    by (simp_all add: alert four_failures failureCount_def trk_recordSuccess_def)
  have since: "trk_consecutiveFailures (recordAttempts [Failed 7, Failed 8, Repaired 7, Failed 8] newTracker) = 1"
    "failureCount (recordAttempts [Failed 7, Failed 8, Repaired 7, Failed 8] newTracker) 8 = 2"
    "failureCount (recordAttempts [Failed 7, Failed 8, Repaired 7, Failed 8] newTracker) 7 = 0"
    by (simp_all add: sinceAll sinceOne failuresSinceSuccess_def failuresOfSinceSuccess_def)
  have repaired: "fst (resolveEach no_faults eth_exchange 9000 [eth_state] (?t4, [], eth_db)) = newTracker"
    "fst (snd (resolveEach no_faults eth_exchange 9000 [eth_state] (?t4, [], eth_db))) = []"
    unfolding step four_failures
    by (simp_all add: eth_repaired no_faults_def trk_recordSuccess_def newTracker_def
        eth_state_fields)
  have unmarked: "fst (resolveEach mark_update_fails eth_exchange 9000 [eth_state] (?t4, [], eth_db)) =
       \<lparr>trk_consecutiveFailures = 5, failedStates = [(7, 5)]\<rparr>"
    "fst (snd (resolveEach mark_update_fails eth_exchange 9000 [eth_state] (?t4, [], eth_db))) =
       [\<lparr>level = ERROR, details = StateFailing 7 5 5\<rparr>]"
    unfolding step
    by (simp_all add: eth_repaired_unmarked mark_update_fails_def four_failures
        trk_recordFailure_def failureCount_def Let_def eth_state_fields)
  have unreachable: "fst (snd (resolveEach no_faults unreachable_exchange 9000 [eth_state] (?t4, [], eth_db))) =
       [\<lparr>level = ERROR, details = StateFailing 7 5 5\<rparr>]"
    unfolding step
    by (simp add: unreachable_fails four_failures trk_recordFailure_def failureCount_def Let_def
        eth_state_fields)
  have idle: "resolveInconsistentStates no_faults unreachable_exchange 9000 (fst (failTimes 12 7 (newTracker, [])))
       \<lparr>tables = eth_resolved_store, snapshot = None, journal = []\<rparr> =
     (fst (failTimes 12 7 (newTracker, [])), [],
      \<lparr>tables = eth_resolved_store, snapshot = None, journal = [SelectUnresolvedStates]\<rparr>)"
    using reconcile_failure_alerts[where faults = no_faults and exchangeClient = unreachable_exchange
        and timestamp = 9000 and t = "fst (failTimes 12 7 (newTracker, []))"
        and db = "\<lparr>tables = eth_resolved_store, snapshot = None, journal = []\<rparr>"
        and rows = "[]"
        and selected = "\<lparr>tables = eth_resolved_store, snapshot = None, journal = [SelectUnresolvedStates]\<rparr>",
        THEN conjunct2, THEN conjunct2, THEN conjunct2, THEN conjunct2, THEN conjunct2, THEN conjunct2, THEN conjunct2, THEN conjunct2, THEN conjunct2, THEN conjunct2, THEN conjunct2, THEN conjunct2, THEN conjunct1, rule_format, OF resolved_nothing_to_do]
    by (simp only: simp_thms if_True)
  have critical: "map level (fst (snd (resolveInconsistentStates no_faults unreachable_exchange 9000
       \<lparr>trk_consecutiveFailures = 9, failedStates = [(7, 3), (8, 6)]\<rparr> eth_db))) = [CRITICAL]"
    unfolding eth_db_def pass[rule_format, OF eth_unresolved] step
    by (simp add: unreachable_fails trk_recordFailure_def failureCount_def
        checkOverallFailures_def Let_def eth_state_fields)
  from tracker since repaired unmarked unreachable idle critical show ?thesis
    by (intro conjI)
qed


subsection \<open>Reconciler: the fee of a synthesized close\<close>

text \<open>
  C2, as stated, fails: in the repair scenario the matching fill is found and reports a
  fee of 0.5, yet the close trade row and the close event row carry 0.19, one thousandth
  of the notional value 190 of the fill.
\<close>

theorem reconciler_ignores_fill_fee_counterexample:
  "find (matchesOrder ''987654321'') [eth_fill] = Some eth_fill \<and>
   tr_fee eth_fill = Some 0.5 \<and>
   map t_fee (trades (tables (snd (resolveClosePosition no_faults eth_exchange 9000 eth_state eth_db))))
     = [1, 0.19] \<and>
   map e_fee (position_close_events
       (tables (snd (resolveClosePosition no_faults eth_exchange 9000 eth_state eth_db)))) = [0.19]"
  by (simp add: eth_repaired_close eth_exchange_answers eth_resolved_store_def)
     (simp add: eth_fill_def eth_open_trade_def eth_close_trade_def eth_close_event_def)

text \<open>
  C2 (amended): whenever the reconciler synthesizes a close, the fee it writes into the
  close trade row and into the close event row is the notional value of the matching fill
  (quantity times exit price, times the contract multiplier for an inverse contract) times
  the flat rate 0.001; neither the fee of the fill nor a configured rate enters.
\<close>

theorem reconciler_fee_is_flat:
  assumes "resolveClosePosition faults ex ts state db = (True, db')"
  shows "\<exists>fills closeTrade notional tradeRow eventRow.
           rx_getMyTrades ex (rx_normalizeContract ex (is_symbol state)) 100 = Inr fills \<and>
           find (matchesOrder (is_exchange_order_id state)) fills = Some closeTrade \<and>
           closeNotional ex (rx_normalizeContract ex (is_symbol state)) closeTrade = Some notional \<and>
           trades (tables db') = trades (tables db) @ [tradeRow] \<and>
           position_close_events (tables db') = position_close_events (tables db) @ [eventRow] \<and>
           t_fee tradeRow = notional * 0.001 \<and> e_fee eventRow = notional * 0.001"
proof -
  from resolveClosePosition_shape[OF assms] obtain fills closeTrade openTrade tradeRow eventRow db1 where
    fills: "rx_getMyTrades ex (rx_normalizeContract ex (is_symbol state)) 100 = Inr fills"
      "find (matchesOrder (is_exchange_order_id state)) fills = Some closeTrade"
    and rows: "closeRecords ex ts state (rx_normalizeContract ex (is_symbol state)) openTrade closeTrade
              = Inr (tradeRow, eventRow)"
    and db1: "tables db1 = tables db"
    and w: "writeCloseRecords faults ts (is_symbol state) (is_side state) tradeRow eventRow db1
              = (True, db')"
    by auto
  from writeCloseRecords_committed[OF w] db1 have
    "trades (tables db') = trades (tables db) @ [tradeRow]"
    "position_close_events (tables db') = position_close_events (tables db) @ [eventRow]"
    by (simp_all add: closeWritten_def)
  with closeRecords_rows[OF rows] fills show ?thesis by blast
qed


theorem reconciler_fee_is_flat_witness:
  "closeNotional eth_exchange ''ETH_USDT'' eth_fill = Some 190 \<and>
   trades (tables (snd (resolveClosePosition no_faults eth_exchange 9000 eth_state eth_db)))
     = [eth_open_trade, eth_close_trade] \<and>
   t_fee eth_close_trade = 190 * 0.001"
proof -
  have notional: "closeNotional eth_exchange ''ETH_USDT'' eth_fill = Some 190"
    by (simp add: closeNotional_def eth_exchange_def fillQuantity_def truthyNumber_def eth_fill_def)
  have written: "trades (tables (snd (resolveClosePosition no_faults eth_exchange 9000 eth_state eth_db)))
     = [eth_open_trade, eth_close_trade]"
    by (simp add: eth_repaired_close eth_resolved_store_def)
  have flat: "t_fee eth_close_trade = 190 * 0.001"
    by (simp add: eth_close_trade_def)
  from reconciler_fee_is_flat[OF eth_repaired_close] notional written flat
  show ?thesis by simp
qed


subsection \<open>\<open>GET /api/prices\<close>\<close>

lemma collect_prices:
  "map_of (foldl (\<lambda>acc symbol. AList.update symbol (g symbol) acc) acc0 symbols) =
     (\<lambda>k. if k \<in> set symbols then Some (g k) else map_of acc0 k)"
  by (induction symbols arbitrary: acc0) (auto simp: update_conv' fun_eq_iff)

lemma collect_keys:
  "fst ` set (foldl (\<lambda>acc symbol. AList.update symbol (g symbol) acc) acc0 symbols) =
     fst ` set acc0 \<union> set symbols"
  by (induction symbols arbitrary: acc0) (auto simp: dom_update)

lemma default_symbols:
  "tradingSymbols (default_env lastPrice) = [''BTC'', ''ETH'', ''SOL'', ''XRP'', ''BNB'', ''BCH'']"
  by (simp add: tradingSymbols_def default_env_def DEFAULT_TRADING_SYMBOLS_def trim_def isSpace_def)

lemma first_request:
  "pricesHandler (default_env 100) 1000 1200 doge_request None =
     (PricesJson (default_prices 100), Some \<lparr>pc_prices = default_prices 100, pc_timestamp = 1200\<rparr>)"
  by (simp add: pricesHandler_def default_symbols Let_def)
     (simp add: default_env_def quoting_exchange_def fetchPrice_def default_prices_def Let_def)

lemma collect_distinct:
  "distinct (map fst acc0) \<Longrightarrow>
   distinct (map fst (foldl (\<lambda>acc symbol. AList.update symbol (g symbol) acc) acc0 symbols))"
  by (induction symbols arbitrary: acc0) (simp_all add: distinct_update)

lemma btc_eth_symbols:
  "tradingSymbols (btc_eth_env exchangeClient) = [''BTC'', ''ETH'']"
  by (simp add: tradingSymbols_def btc_eth_env_def trim_def isSpace_def)

lemma btc_eth_stale:
  "pricesHandler (btc_eth_env eth_ticker_down) 7000 7300 doge_request
       (Some \<lparr>pc_prices = [(''BTC'', 64000), (''ETH'', 1800)], pc_timestamp = 1200\<rparr>) =
     (PricesJson [(''BTC'', 65000), (''ETH'', 1800)],
      Some \<lparr>pc_prices = [(''BTC'', 65000), (''ETH'', 1800)], pc_timestamp = 7300\<rparr>)"
  by (simp add: pricesHandler_def btc_eth_symbols Let_def)
     (simp add: btc_eth_env_def eth_ticker_down_def fetchPrice_def gate_normalizeContract_def
        PRICE_CACHE_TTL_def Let_def)

lemma btc_eth_cold:
  "pricesHandler (btc_eth_env eth_ticker_down) 1000 1200 doge_request None =
     (PricesJson [(''BTC'', 65000), (''ETH'', 0)],
      Some \<lparr>pc_prices = [(''BTC'', 65000), (''ETH'', 0)], pc_timestamp = 1200\<rparr>)"
  by (simp add: pricesHandler_def btc_eth_symbols Let_def)
     (simp add: btc_eth_env_def eth_ticker_down_def fetchPrice_def gate_normalizeContract_def
        PRICE_CACHE_TTL_def Let_def)

text \<open>
  C8, as stated, fails: the request names DOGE in its \<open>symbols\<close> parameter, and the
  response holds the prices of the configured symbols (here the default list), with no
  entry for DOGE.
\<close>

theorem prices_ignore_symbols_parameter_counterexample:
  "rq_symbols doge_request = Some ''DOGE'' \<and>
   fst (pricesHandler (default_env 100) 1000 1200 doge_request None) =
     PricesJson [(''BTC'', 100), (''ETH'', 100), (''SOL'', 100), (''XRP'', 100), (''BNB'', 100),
                 (''BCH'', 100)]"
proof -
  have asked: "rq_symbols doge_request = Some ''DOGE''"
    by (simp add: doge_request_def)
  have served: "fst (pricesHandler (default_env 100) 1000 1200 doge_request None) =
     PricesJson [(''BTC'', 100), (''ETH'', 100), (''SOL'', 100), (''XRP'', 100), (''BNB'', 100),
                 (''BCH'', 100)]"
    by (simp add: first_request default_prices_def)
  from asked served show ?thesis by blast
qed

text \<open>
  C8 (amended): with an exchange client at hand, \<open>GET /api/prices\<close> answers
  \<open>{prices}\<close> for the symbols of the configuration, whatever the \<open>symbols\<close> parameter of
  the request: the value of \<open>TRADING_SYMBOLS\<close>, or \<open>BTC,ETH,SOL,XRP,BNB,BCH\<close> when it is
  unset or empty, split at the commas, each piece trimmed. When the cache is empty or its
  timestamp is 5000 ms old or older, the object holds exactly these symbols, each once, with
  the last price of the ticker of its contract or, when the ticker cannot be read, the
  price the old cache holds for the symbol, and 0 when there is none; this object becomes
  the cache, stamped with the time the fetch ended. A request that arrives less than 5000 ms
  after that stamp is answered with the cached object and leaves the cache as it is.
\<close>

theorem prices_for_configured_symbols_cached:
  assumes client: "env_getExchangeClient env = Inr exchangeClient"
    and configured: "configured = (case env_TRADING_SYMBOLS env of
                                     None \<Rightarrow> ''BTC,ETH,SOL,XRP,BNB,BCH''
                                   | Some v \<Rightarrow> if v = [] then ''BTC,ETH,SOL,XRP,BNB,BCH'' else v)"
  shows "((\<forall>cache. priceCache = Some cache \<longrightarrow> \<not> now - pc_timestamp cache < 5000) \<longrightarrow>
            (\<exists>prices.
               pricesHandler env now fetchedAt request priceCache =
                 (PricesJson prices, Some \<lparr>pc_prices = prices, pc_timestamp = fetchedAt\<rparr>)
               \<and> fst ` set prices = set (map trim (splitOn CHR '','' configured))
               \<and> distinct (map fst prices)
               \<and> (\<forall>symbol \<in> set (map trim (splitOn CHR '','' configured)).
                     map_of prices symbol =
                       Some (case px_lastPrice exchangeClient (px_normalizeContract exchangeClient symbol) of
                               Inr lastPrice \<Rightarrow> lastPrice
                             | Inl e \<Rightarrow>
                                 (case priceCache of
                                    None \<Rightarrow> 0
                                  | Some cache \<Rightarrow>
                                      (case map_of (pc_prices cache) symbol of
                                         None \<Rightarrow> 0
                                       | Some old \<Rightarrow> old))))))
       \<and> (\<forall>cache. priceCache = Some cache \<and> now - pc_timestamp cache < 5000 \<longrightarrow>
             pricesHandler env now fetchedAt request priceCache = (PricesJson (pc_prices cache), priceCache))
       \<and> pricesHandler env now fetchedAt request priceCache =
           pricesHandler env now fetchedAt \<lparr>rq_symbols = None\<rparr> priceCache"
proof -
  have symbols: "tradingSymbols env = map trim (splitOn CHR '','' configured)"
    unfolding tradingSymbols_def configured DEFAULT_TRADING_SYMBOLS_def Let_def by (rule refl)
  have price: "fetchPrice exchangeClient priceCache symbol =
      (case px_lastPrice exchangeClient (px_normalizeContract exchangeClient symbol) of
         Inr lastPrice \<Rightarrow> lastPrice
       | Inl e \<Rightarrow>
           (case priceCache of
              None \<Rightarrow> 0
            | Some cache \<Rightarrow>
                (case map_of (pc_prices cache) symbol of
                   None \<Rightarrow> 0
                 | Some old \<Rightarrow> old)))" for symbol
    by (simp add: fetchPrice_def split: sum.splits option.splits)
  have miss: "(\<forall>cache. priceCache = Some cache \<longrightarrow> \<not> now - pc_timestamp cache < 5000) \<longrightarrow>
            (\<exists>prices.
               pricesHandler env now fetchedAt request priceCache =
                 (PricesJson prices, Some \<lparr>pc_prices = prices, pc_timestamp = fetchedAt\<rparr>)
               \<and> fst ` set prices = set (tradingSymbols env)
               \<and> distinct (map fst prices)
               \<and> (\<forall>symbol \<in> set (tradingSymbols env).
                     map_of prices symbol = Some (fetchPrice exchangeClient priceCache symbol)))"
    using client
    by (auto simp: pricesHandler_def PRICE_CACHE_TTL_def Let_def collect_prices collect_keys
        collect_distinct split: option.splits)
  have hit: "\<forall>cache. priceCache = Some cache \<and> now - pc_timestamp cache < 5000 \<longrightarrow>
             pricesHandler env now fetchedAt request priceCache = (PricesJson (pc_prices cache), priceCache)"
    using client by (simp add: pricesHandler_def PRICE_CACHE_TTL_def Let_def)
  have ignore: "pricesHandler env now fetchedAt request priceCache =
           pricesHandler env now fetchedAt \<lparr>rq_symbols = None\<rparr> priceCache"
    by (simp add: pricesHandler_def)
  from miss[unfolded symbols price] hit ignore show ?thesis by (intro conjI)
qed

theorem prices_for_configured_symbols_cached_witness:
  "pricesHandler (btc_eth_env eth_ticker_down) 7000 7300 doge_request
       (Some \<lparr>pc_prices = [(''BTC'', 64000), (''ETH'', 1800)], pc_timestamp = 1200\<rparr>) =
     (PricesJson [(''BTC'', 65000), (''ETH'', 1800)],
      Some \<lparr>pc_prices = [(''BTC'', 65000), (''ETH'', 1800)], pc_timestamp = 7300\<rparr>) \<and>
   pricesHandler (btc_eth_env eth_ticker_down) 1000 1200 doge_request None =
     (PricesJson [(''BTC'', 65000), (''ETH'', 0)],
      Some \<lparr>pc_prices = [(''BTC'', 65000), (''ETH'', 0)], pc_timestamp = 1200\<rparr>) \<and>
   pricesHandler (btc_eth_env (quoting_exchange 200)) 9000 9200 doge_request
       (Some \<lparr>pc_prices = [(''BTC'', 65000), (''ETH'', 1800)], pc_timestamp = 7300\<rparr>) =
     (PricesJson [(''BTC'', 65000), (''ETH'', 1800)],
      Some \<lparr>pc_prices = [(''BTC'', 65000), (''ETH'', 1800)], pc_timestamp = 7300\<rparr>) \<and>
   pricesHandler (default_env 100) 1000 1200 doge_request None =
     (PricesJson (default_prices 100), Some \<lparr>pc_prices = default_prices 100, pc_timestamp = 1200\<rparr>) \<and>
   map trim (splitOn CHR '','' ''BTC, ETH'') = [''BTC'', ''ETH'']"
proof -
  have client: "env_getExchangeClient (btc_eth_env (quoting_exchange 200)) = Inr (quoting_exchange 200)"
    by (simp add: btc_eth_env_def)
  have configured: "''BTC, ETH'' =
      (case env_TRADING_SYMBOLS (btc_eth_env (quoting_exchange 200)) of
         None \<Rightarrow> ''BTC,ETH,SOL,XRP,BNB,BCH''
       | Some v \<Rightarrow> if v = [] then ''BTC,ETH,SOL,XRP,BNB,BCH'' else v)"
    by (simp add: btc_eth_env_def)
  have young: "Some \<lparr>pc_prices = [(''BTC'', 65000), (''ETH'', 1800)], pc_timestamp = 7300\<rparr> =
        Some \<lparr>pc_prices = [(''BTC'', 65000), (''ETH'', 1800)], pc_timestamp = 7300\<rparr> \<and>
      9000 - pc_timestamp \<lparr>pc_prices = [(''BTC'', 65000), (''ETH'', 1800)], pc_timestamp = 7300\<rparr> < 5000"
    by simp
  have cached: "pricesHandler (btc_eth_env (quoting_exchange 200)) 9000 9200 doge_request
       (Some \<lparr>pc_prices = [(''BTC'', 65000), (''ETH'', 1800)], pc_timestamp = 7300\<rparr>) =
     (PricesJson [(''BTC'', 65000), (''ETH'', 1800)],
      Some \<lparr>pc_prices = [(''BTC'', 65000), (''ETH'', 1800)], pc_timestamp = 7300\<rparr>)"
    using prices_for_configured_symbols_cached[OF client configured, THEN conjunct2, THEN conjunct1,
        rule_format, OF young]
    by simp
  have parsed: "map trim (splitOn CHR '','' ''BTC, ETH'') = [''BTC'', ''ETH'']"
    by (simp add: trim_def isSpace_def)
  from btc_eth_stale btc_eth_cold cached first_request parsed show ?thesis by (intro conjI)
qed

end
